theory Spec2Isabelle
  imports Main
begin

section \<open>Data model (backend/index.js, the two Mongoose schemas)\<close>

text \<open>
  An ObjectId is modelled as a natural number. A collection is the list of its documents
  in insertion order. \<open>dishSchema\<close> has the fields \<open>type\<close> (a string of the
  enumeration main, side, dessert), \<open>name\<close> and \<open>price\<close>; prices are modelled as
  integers (the seeded menu has integer prices, and sums of such integers are exact in
  the JavaScript Number type). \<open>orderSchema\<close> stores the identities of the dishes and
  the creation time in milliseconds.
\<close>

type_synonym objectId = nat

record dish_doc =
  dish_id :: objectId
  dish_type :: string
  name :: string
  price :: int

record order_doc =
  order_id :: objectId
  mainDish :: objectId
  sideDishes :: "objectId list"
  dessert :: "objectId option"
  createdAt :: int

text \<open>
  The database: the two collections and the generator of fresh ObjectIds, which only
  ever grows.
\<close>

record db =
  Dish :: "dish_doc list"
  Order :: "order_doc list"
  nextId :: objectId

text \<open>
  The handlers answer with a status code; the three failure statuses are the error
  signals: 400 is \<open>InvalidRequest\<close>, 404 is \<open>NotFound\<close>, 500 is
  \<open>InternalError\<close>. The 400 and 404 answers carry the message of the handler.
\<close>

datatype error = InvalidRequest string | NotFound string | InternalError

section \<open>Catalog lookups\<close>

text \<open>\<open>Dish.findOne({ name: n })\<close>: the first dish with that name, or null.\<close>

definition findOne_name :: "dish_doc list \<Rightarrow> string \<Rightarrow> dish_doc option" where
  "findOne_name ds n = find (\<lambda>d. name d = n) ds"

text \<open>\<open>Dish.findById(i)\<close>: the first dish with that identity, or null.\<close>

definition findById_dish :: "dish_doc list \<Rightarrow> objectId \<Rightarrow> dish_doc option" where
  "findById_dish ds i = find (\<lambda>d. dish_id d = i) ds"

section \<open>Create: app.post("/order")\<close>

text \<open>
  The request body. A field that is absent (or, for \<open>sideDishes\<close>, is not an array)
  is \<open>None\<close>. JavaScript's \<open>!x\<close> is true of an absent field and of the empty
  string.
\<close>

record order_body =
  b_mainDish :: "string option"
  b_sideDishes :: "string list option"
  b_dessert :: "string option"

definition falsy :: "string option \<Rightarrow> bool" where
  "falsy s = (case s of None \<Rightarrow> True | Some n \<Rightarrow> n = [])"

text \<open>
  The loop over \<open>req.body.sideDishes\<close>: each name is looked up in input order, the
  identity found is pushed onto \<open>sideDishesIds\<close>, and the first name that is not found
  returns the 404 answer naming it.
\<close>

fun resolve_sides :: "dish_doc list \<Rightarrow> string list \<Rightarrow> objectId list \<Rightarrow> error + objectId list" where
  "resolve_sides ds [] sideDishesIds = Inr sideDishesIds"
| "resolve_sides ds (sideDishName # rest) sideDishesIds =
     (case findOne_name ds sideDishName of
        None \<Rightarrow> Inl (NotFound (''Side dish '' @ sideDishName @ '' not found''))
      | Some sideDish \<Rightarrow> resolve_sides ds rest (sideDishesIds @ [dish_id sideDish]))"

text \<open>
  \<open>new Order(orderData).save()\<close>: the document gets a fresh identity and the
  current time as \<open>createdAt\<close>, and is appended to the Order collection.
\<close>

definition save_order :: "int \<Rightarrow> objectId \<Rightarrow> objectId list \<Rightarrow> objectId option \<Rightarrow> db \<Rightarrow> order_doc \<times> db" where
  "save_order now m ss de d =
     (let order = \<lparr>order_id = nextId d, mainDish = m, sideDishes = ss, dessert = de,
                    createdAt = now\<rparr>
      in (order, d\<lparr>Order := Order d @ [order], nextId := Suc (nextId d)\<rparr>))"

definition post_order :: "int \<Rightarrow> order_body \<Rightarrow> db \<Rightarrow> (error + order_doc) \<times> db" where
  "post_order now body d =
     (if falsy (b_mainDish body) \<or> b_sideDishes body = None \<or> b_sideDishes body = Some []
      then (Inl (InvalidRequest ''You must order at least one main dish and one side dish.''), d)
      else
        (case findOne_name (Dish d) (the (b_mainDish body)) of
           None \<Rightarrow> (Inl (NotFound ''Main dish not found''), d)
         | Some main \<Rightarrow>
             (case resolve_sides (Dish d) (the (b_sideDishes body)) [] of
                Inl e \<Rightarrow> (Inl e, d)
              | Inr sideDishesIds \<Rightarrow>
                  (if \<not> falsy (b_dessert body)
                   then
                     (case findOne_name (Dish d) (the (b_dessert body)) of
                        None \<Rightarrow> (Inl (NotFound ''Dessert not found''), d)
                      | Some de \<Rightarrow>
                          (case save_order now (dish_id main) sideDishesIds (Some (dish_id de)) d of
                             (order, d') \<Rightarrow> (Inr order, d')))
                   else
                     (case save_order now (dish_id main) sideDishesIds None d of
                        (order, d') \<Rightarrow> (Inr order, d'))))))"

section \<open>Read: app.get("/orders") and app.get("/order/:id")\<close>

text \<open>
  \<open>populate("mainDish sideDishes dessert")\<close> replaces every stored identity by the
  dish it refers to. A single reference that does not resolve becomes null; in the array
  the references that do not resolve are left out.
\<close>

record populated_order =
  p_id :: objectId
  p_mainDish :: "dish_doc option"
  p_sideDishes :: "dish_doc list"
  p_dessert :: "dish_doc option"
  p_createdAt :: int

definition populate :: "dish_doc list \<Rightarrow> order_doc \<Rightarrow> populated_order" where
  "populate ds r =
     \<lparr>p_id = order_id r,
      p_mainDish = findById_dish ds (mainDish r),
      p_sideDishes = List.map_filter (findById_dish ds) (sideDishes r),
      p_dessert = Option.bind (dessert r) (findById_dish ds),
      p_createdAt = createdAt r\<rparr>"

text \<open>
  The \<open>:id\<close> parameter of a route is a string: either the 24 hexadecimal digits of an
  ObjectId, or anything else. \<open>mongoose.Types.ObjectId.isValid\<close> tells them apart;
  a query by a malformed identity throws a cast error.
\<close>

datatype id_param = Hex24 objectId | Malformed string

definition isValid :: "id_param \<Rightarrow> bool" where
  "isValid p = (case p of Hex24 _ \<Rightarrow> True | Malformed _ \<Rightarrow> False)"

definition findById_order :: "order_doc list \<Rightarrow> objectId \<Rightarrow> order_doc option" where
  "findById_order rs i = find (\<lambda>r. order_id r = i) rs"

definition get_orders :: "db \<Rightarrow> populated_order list" where
  "get_orders d = map (populate (Dish d)) (Order d)"

definition get_order :: "id_param \<Rightarrow> db \<Rightarrow> error + populated_order" where
  "get_order p d =
     (case p of
        Malformed _ \<Rightarrow> Inl InternalError
      | Hex24 i \<Rightarrow>
          (case findById_order (Order d) i of
             None \<Rightarrow> Inl (NotFound ''Order not found'')
           | Some r \<Rightarrow> Inr (populate (Dish d) r)))"

section \<open>Update: app.put("/order/:id")\<close>

text \<open>
  The body of an update carries identities, not names. Each of its three fields may be
  absent: \<open>const { mainDish, sideDishes, dessert } = req.body\<close> leaves the variable of
  an absent field undefined, and the update \<open>{ mainDish, sideDishes, dessert }\<close>
  handed to \<open>findByIdAndUpdate\<close> sets only the fields that are defined, so the order
  keeps its stored value of every field the body omits. A field of the body is \<open>None\<close>
  when it is absent; the dessert may also be present and null, which is
  \<open>Some None\<close>. (A field that cannot be cast to an identity is outside the model.)
\<close>

record update_body =
  u_mainDish :: "objectId option"
  u_sideDishes :: "objectId list option"
  u_dessert :: "objectId option option"

text \<open>
  \<open>findByIdAndUpdate\<close> with \<open>{ new: true }\<close> rewrites the first order with the
  identity and returns the rewritten document, or null when there is none. The handler
  checks the \<open>:id\<close> parameter with \<open>isValid\<close> before the query; a cast error of
  the query would be caught and answered with status 400.
\<close>

fun findByIdAndUpdate :: "order_doc list \<Rightarrow> objectId \<Rightarrow> update_body \<Rightarrow> order_doc option \<times> order_doc list" where
  "findByIdAndUpdate [] i u = (None, [])"
| "findByIdAndUpdate (r # rs) i u =
     (if order_id r = i
      then (let r' = r\<lparr>mainDish := (case u_mainDish u of None \<Rightarrow> mainDish r | Some m \<Rightarrow> m),
                         sideDishes := (case u_sideDishes u of None \<Rightarrow> sideDishes r | Some ss \<Rightarrow> ss),
                         dessert := (case u_dessert u of None \<Rightarrow> dessert r | Some de \<Rightarrow> de)\<rparr>
            in (Some r', r' # rs))
      else (case findByIdAndUpdate rs i u of (res, rs') \<Rightarrow> (res, r # rs')))"

definition put_order :: "id_param \<Rightarrow> update_body \<Rightarrow> db \<Rightarrow> (error + populated_order) \<times> db" where
  "put_order p u d =
     (if \<not> isValid p then (Inl (InvalidRequest ''Invalid order ID format''), d)
      else
        (case p of
           Malformed _ \<Rightarrow> (Inl (InvalidRequest ''Cast to ObjectId failed''), d)
         | Hex24 i \<Rightarrow>
             (case findByIdAndUpdate (Order d) i u of
                (None, _) \<Rightarrow> (Inl (NotFound ''Order not found''), d)
              | (Some updatedOrder, rs') \<Rightarrow>
                  (Inr (populate (Dish d) updatedOrder), d\<lparr>Order := rs'\<rparr>))))"

section \<open>Delete: app.delete("/order/:id")\<close>

text \<open>
  \<open>findByIdAndDelete\<close> removes the first order with the identity and returns it, or
  returns null. The handler does not validate the parameter, so a malformed identity
  reaches the query, whose cast error is caught and answered with status 500.
\<close>

fun findByIdAndDelete :: "order_doc list \<Rightarrow> objectId \<Rightarrow> order_doc option \<times> order_doc list" where
  "findByIdAndDelete [] i = (None, [])"
| "findByIdAndDelete (r # rs) i =
     (if order_id r = i then (Some r, rs)
      else (case findByIdAndDelete rs i of (res, rs') \<Rightarrow> (res, r # rs')))"

definition delete_order :: "id_param \<Rightarrow> db \<Rightarrow> (error + string) \<times> db" where
  "delete_order p d =
     (case p of
        Malformed _ \<Rightarrow> (Inl InternalError, d)
      | Hex24 i \<Rightarrow>
          (case findByIdAndDelete (Order d) i of
             (None, _) \<Rightarrow> (Inl (NotFound ''Order not found''), d)
           | (Some _, rs') \<Rightarrow> (Inr ''Order deleted successfully'', d\<lparr>Order := rs'\<rparr>)))"

section \<open>Report: app.get("/reports/daily-sales")\<close>

text \<open>
  Times are milliseconds since the epoch. The two Date operations of the handler follow
  the rules of the time zone of the host, which the source does not fix, so they are
  parameters of the report: \<open>setHours0 z t\<close> is the instant that
  \<open>setHours(0, 0, 0, 0)\<close> gives a Date of the instant \<open>t\<close>, the local midnight that
  starts the local date of \<open>t\<close>, and \<open>setDatePlus1 z t\<close> is the instant that
  \<open>setDate(getDate() + 1)\<close> gives it, the same local time on the next local date.
\<close>

record host_zone =
  setHours0 :: "int \<Rightarrow> int"
  setDatePlus1 :: "int \<Rightarrow> int"

text \<open>
  The callback of \<open>orders.reduce\<close>, with \<open>acc\<close> for its accumulator
  \<open>total\<close>. Reading \<open>price\<close> of a main dish that populate left null throws;
  the handler answers 500. Prices are integers: the seeding routine is the only writer
  of dishes and its menu has integer prices, whose sums are exact in the JavaScript
  Number type below \<open>2 ^ 53\<close>.
\<close>

definition add_order :: "int \<Rightarrow> populated_order \<Rightarrow> error + int" where
  "add_order acc r =
     (case p_mainDish r of
        None \<Rightarrow> Inl InternalError
      | Some m \<Rightarrow>
          (let t1 = acc + price m;
               t2 = foldl (\<lambda>t dish. t + price dish) t1 (p_sideDishes r)
           in Inr (case p_dessert r of None \<Rightarrow> t2 | Some de \<Rightarrow> t2 + price de)))"

fun reduce_sales :: "populated_order list \<Rightarrow> int \<Rightarrow> error + int" where
  "reduce_sales [] acc = Inr acc"
| "reduce_sales (r # rs) acc =
     (case add_order acc r of Inl e \<Rightarrow> Inl e | Inr acc' \<Rightarrow> reduce_sales rs acc')"

definition daily_sales :: "host_zone \<Rightarrow> int \<Rightarrow> db \<Rightarrow> error + int" where
  "daily_sales z now d =
     (let today = setHours0 z now;
          tomorrow = setDatePlus1 z today;
          orders = map (populate (Dish d))
                     (filter (\<lambda>r. today \<le> createdAt r \<and> createdAt r < tomorrow) (Order d))
      in reduce_sales orders 0)"

text \<open>
  The specification's side of the report. A time lies in the current local calendar day
  when it is at or after the local midnight before now and before the next local
  midnight. The references of an order resolve when its main dish, each of its side
  dishes and its dessert, if it has one, are dishes of the catalog. The price of an
  order is the price of its main dish, plus the price of every side dish that is a dish
  of the catalog, plus the price of the dessert if there is one and it is a dish of the
  catalog.
\<close>

definition in_day :: "host_zone \<Rightarrow> int \<Rightarrow> int \<Rightarrow> bool" where
  "in_day z now t = (setHours0 z now \<le> t \<and> t < setDatePlus1 z (setHours0 z now))"

definition refs_resolve :: "dish_doc list \<Rightarrow> order_doc \<Rightarrow> bool" where
  "refs_resolve ds r =
     (findById_dish ds (mainDish r) \<noteq> None \<and>
      list_all (\<lambda>i. findById_dish ds i \<noteq> None) (sideDishes r) \<and>
      (case dessert r of None \<Rightarrow> True | Some i \<Rightarrow> findById_dish ds i \<noteq> None))"

definition order_price :: "dish_doc list \<Rightarrow> order_doc \<Rightarrow> int" where
  "order_price ds r =
     price (the (findById_dish ds (mainDish r)))
     + (\<Sum>i\<leftarrow>sideDishes r. case findById_dish ds i of None \<Rightarrow> 0 | Some s \<Rightarrow> price s)
     + (case dessert r of
          None \<Rightarrow> 0
        | Some i \<Rightarrow> (case findById_dish ds i of None \<Rightarrow> 0 | Some de \<Rightarrow> price de))"

text \<open>
  Two kinds of zone for the examples. A zone with a constant offset \<open>tz\<close> from UTC,
  where the local calendar day of a time is the number of whole days of its local time
  and a day has 24 hours. And a zone whose offset changes once, from \<open>std\<close> to
  \<open>dst\<close> at the instant \<open>change\<close>, as on the day daylight saving time begins;
  the Eastern zone of the United States changed from five to four hours behind UTC on 10
  March 2024 at 07:00 UTC, which made that local day 23 hours long.
\<close>

definition msPerDay :: int where
  "msPerDay = 86400000"

definition local_day :: "int \<Rightarrow> int \<Rightarrow> int" where
  "local_day tz t = (t + tz) div msPerDay"

definition fixed_zone :: "int \<Rightarrow> host_zone" where
  "fixed_zone tz =
     \<lparr>setHours0 = (\<lambda>t. t - (t + tz) mod msPerDay), setDatePlus1 = (\<lambda>t. t + msPerDay)\<rparr>"

definition zone_offset :: "int \<Rightarrow> int \<Rightarrow> int \<Rightarrow> int \<Rightarrow> int" where
  "zone_offset std dst change t = (if t < change then std else dst)"

definition of_local :: "int \<Rightarrow> int \<Rightarrow> int \<Rightarrow> int \<Rightarrow> int" where
  "of_local std dst change l = (if l - std < change then l - std else l - dst)"

definition dst_zone :: "int \<Rightarrow> int \<Rightarrow> int \<Rightarrow> host_zone" where
  "dst_zone std dst change =
     \<lparr>setHours0 = (\<lambda>t. of_local std dst change
                          ((t + zone_offset std dst change t) div msPerDay * msPerDay)),
      setDatePlus1 = (\<lambda>t. of_local std dst change
                          (t + zone_offset std dst change t + msPerDay))\<rparr>"

definition eastern_2024 :: host_zone where
  "eastern_2024 = dst_zone (- 18000000) (- 14400000) 1710054000000"

section \<open>The aggregation stages\<close>

text \<open>
  \<open>$group\<close> with \<open>count: { $sum: 1 }\<close>: one row per key, in the order in which the
  keys are first met, with the number of documents of the key. \<open>$sort: { count: -1 }\<close>
  is modelled as a stable sort by falling count. The database fixes neither the order of
  the groups nor the order among equal counts; the model fixes one, and the theorems on
  the reports do not depend on which.
\<close>

fun bump :: "'k \<Rightarrow> ('k \<times> nat) list \<Rightarrow> ('k \<times> nat) list" where
  "bump k [] = [(k, 1)]"
| "bump k ((k', c) # gs) = (if k' = k then (k', Suc c) # gs else (k', c) # bump k gs)"

definition group_count :: "'k list \<Rightarrow> ('k \<times> nat) list" where
  "group_count ks = foldl (\<lambda>gs k. bump k gs) [] ks"

definition sort_count_desc :: "('k \<times> nat) list \<Rightarrow> ('k \<times> nat) list" where
  "sort_count_desc gs = sort_key (\<lambda>g. - int (snd g)) gs"

section \<open>Report: app.get("/reports/famous-main-dish")\<close>


section \<open>Report: app.get("/reports/most-common-pair")\<close>

text \<open>
  The pipeline: \<open>$unwind\<close> of the side dishes gives one (main, side) pair per side
  dish of every order; the pairs are grouped and counted, and sorted by falling count;
  each \<open>$lookup\<close> attaches the list of dishes with the identity, and each
  \<open>$unwind\<close> of such a list gives one row per dish of it, so none for an empty list;
  \<open>$limit\<close> keeps the first row.
\<close>

definition unwind_sideDishes :: "order_doc list \<Rightarrow> (objectId \<times> objectId) list" where
  "unwind_sideDishes rs = concat (map (\<lambda>r. map (\<lambda>s. (mainDish r, s)) (sideDishes r)) rs)"

definition lookup_dish :: "dish_doc list \<Rightarrow> objectId \<Rightarrow> dish_doc list" where
  "lookup_dish ds i = filter (\<lambda>d. dish_id d = i) ds"

definition pair_pipeline :: "db \<Rightarrow> (((objectId \<times> objectId) \<times> nat) \<times> dish_doc \<times> dish_doc) list" where
  "pair_pipeline d =
     (let grouped = sort_count_desc (group_count (unwind_sideDishes (Order d)));
          looked = map (\<lambda>g. (g, lookup_dish (Dish d) (fst (fst g)),
                                 lookup_dish (Dish d) (snd (fst g)))) grouped;
          unwound_main = concat (map (\<lambda>(g, ms, ss). map (\<lambda>m. (g, m, ss)) ms) looked);
          unwound_side = concat (map (\<lambda>(g, m, ss). map (\<lambda>s. (g, m, s)) ss) unwound_main)
      in take 1 unwound_side)"

datatype pair_report = Pairing string string nat | NoPairingsFound

definition most_common_pair :: "db \<Rightarrow> pair_report" where
  "most_common_pair d =
     (case pair_pipeline d of
        [] \<Rightarrow> NoPairingsFound
      | (g, mainDishInfo, sideDishInfo) # _ \<Rightarrow>
          Pairing (name mainDishInfo) (name sideDishInfo) (snd g))"

text \<open>
  A pair resolves when both of its identities are identities of dishes: such a pair
  survives the two lookups of the pipeline.
\<close>

definition pair_resolves :: "dish_doc list \<Rightarrow> objectId \<times> objectId \<Rightarrow> bool" where
  "pair_resolves ds p = (findById_dish ds (fst p) \<noteq> None \<and> findById_dish ds (snd p) \<noteq> None)"

section \<open>Seeding: initializeMenu\<close>

text \<open>
  An entry of the list to seed. \<open>newDish.save()\<close> validates the entry against the
  schema (the type is one of the enumeration, the name is required) and throws when the
  validation fails. The \<open>try\<close> encloses the whole loop, so a throw leaves the loop;
  the \<open>catch\<close> logs the error.
\<close>

record dish_entry =
  e_type :: string
  e_name :: string
  e_price :: int

definition validate_dish :: "dish_entry \<Rightarrow> bool" where
  "validate_dish e = (e_type e \<in> set [''main'', ''side'', ''dessert''] \<and> e_name e \<noteq> [])"

definition save_dish :: "dish_entry \<Rightarrow> db \<Rightarrow> db" where
  "save_dish e d =
     d\<lparr>Dish := Dish d @ [\<lparr>dish_id = nextId d, dish_type = e_type e, name = e_name e,
                           price = e_price e\<rparr>],
       nextId := Suc (nextId d)\<rparr>"

datatype seed_log = MenuInitialized | ErrorInitializingMenu

fun seedMenu :: "dish_entry list \<Rightarrow> db \<Rightarrow> seed_log \<times> db" where
  "seedMenu [] d = (MenuInitialized, d)"
| "seedMenu (dish # rest) d =
     (case findOne_name (Dish d) (e_name dish) of
        Some dishExists \<Rightarrow> seedMenu rest d
      | None \<Rightarrow>
          (if validate_dish dish then seedMenu rest (save_dish dish d)
           else (ErrorInitializingMenu, d)))"

definition defaultDishes :: "dish_entry list" where
  "defaultDishes =
     [\<lparr>e_type = ''main'', e_name = ''Rice'', e_price = 100\<rparr>,
      \<lparr>e_type = ''main'', e_name = ''Rotty'', e_price = 20\<rparr>,
      \<lparr>e_type = ''main'', e_name = ''Noodles'', e_price = 150\<rparr>,
      \<lparr>e_type = ''side'', e_name = ''Wadai'', e_price = 45\<rparr>,
      \<lparr>e_type = ''side'', e_name = ''Dhal curry'', e_price = 75\<rparr>,
      \<lparr>e_type = ''side'', e_name = ''Fish curry'', e_price = 120\<rparr>,
      \<lparr>e_type = ''dessert'', e_name = ''Watalappam'', e_price = 40\<rparr>,
      \<lparr>e_type = ''dessert'', e_name = ''Jelly'', e_price = 20\<rparr>,
      \<lparr>e_type = ''dessert'', e_name = ''Pudding'', e_price = 250\<rparr>]"

definition initializeMenu :: "db \<Rightarrow> seed_log \<times> db" where
  "initializeMenu d = seedMenu defaultDishes d"

section \<open>Identities\<close>

text \<open>
  The database keeps the identities of the orders unique. In the model this is the
  property that the identities of the orders are distinct and below the generator; it
  holds of the empty database and every operation preserves it.
\<close>

definition unique_ids :: "db \<Rightarrow> bool" where
  "unique_ids d = (distinct (map order_id (Order d)) \<and> list_all (\<lambda>r. order_id r < nextId d) (Order d))"

text \<open>The database before the first start, and a small catalog for the examples.\<close>

definition empty_db :: db where
  "empty_db = \<lparr>Dish = [], Order = [], nextId = 0\<rparr>"

definition small_db :: db where
  "small_db =
     \<lparr>Dish = [\<lparr>dish_id = 0, dish_type = ''main'', name = ''Rice'', price = 100\<rparr>,
              \<lparr>dish_id = 1, dish_type = ''side'', name = ''Wadai'', price = 45\<rparr>,
              \<lparr>dish_id = 2, dish_type = ''side'', name = ''Dhal curry'', price = 75\<rparr>,
              \<lparr>dish_id = 3, dish_type = ''dessert'', name = ''Jelly'', price = 20\<rparr>],
      Order = [], nextId = 4\<rparr>"

text \<open>
  Two orders over the small catalog, and the same orders after the dish Wadai has left
  the catalog.
\<close>

definition orders_db :: db where
  "orders_db =
     small_db\<lparr>Order := [\<lparr>order_id = 4, mainDish = 0, sideDishes = [1, 2], dessert = None,
                            createdAt = 1000\<rparr>,
                          \<lparr>order_id = 5, mainDish = 0, sideDishes = [1], dessert = Some 3,
                            createdAt = 2000\<rparr>],
              nextId := 6\<rparr>"

definition dangling_db :: db where
  "dangling_db =
     orders_db\<lparr>Dish := [\<lparr>dish_id = 0, dish_type = ''main'', name = ''Rice'', price = 100\<rparr>,
                          \<lparr>dish_id = 2, dish_type = ''side'', name = ''Dhal curry'', price = 75\<rparr>,
                          \<lparr>dish_id = 3, dish_type = ''dessert'', name = ''Jelly'', price = 20\<rparr>]\<rparr>"

text \<open>
  Three orders around the end of a local day in a zone five and a half hours ahead of
  UTC: one at local midnight, one in the last millisecond of that day, one in the first
  millisecond of the next. The same three orders around the end of 10 March 2024 in the
  Eastern zone. And the two orders of the small catalog after updates that left the
  second order with the main dish 99, and with the side dishes 98 and 98, which are not
  in the catalog.
\<close>

definition boundary_db :: db where
  "boundary_db =
     small_db\<lparr>Order := [\<lparr>order_id = 4, mainDish = 0, sideDishes = [1, 2], dessert = None,
                            createdAt = - 19800000\<rparr>,
                          \<lparr>order_id = 5, mainDish = 0, sideDishes = [1], dessert = Some 3,
                            createdAt = 66599999\<rparr>,
                          \<lparr>order_id = 6, mainDish = 0, sideDishes = [2], dessert = None,
                            createdAt = 66600000\<rparr>],
              nextId := 7\<rparr>"

definition spring_db :: db where
  "spring_db =
     small_db\<lparr>Order := [\<lparr>order_id = 4, mainDish = 0, sideDishes = [1, 2], dessert = None,
                            createdAt = 1710046800000\<rparr>,
                          \<lparr>order_id = 5, mainDish = 0, sideDishes = [1], dessert = Some 3,
                            createdAt = 1710129599999\<rparr>,
                          \<lparr>order_id = 6, mainDish = 0, sideDishes = [2], dessert = None,
                            createdAt = 1710129600000\<rparr>],
              nextId := 7\<rparr>"

definition dangling_main_db :: db where
  "dangling_main_db =
     orders_db\<lparr>Order := [\<lparr>order_id = 4, mainDish = 0, sideDishes = [1, 2], dessert = None,
                             createdAt = 1000\<rparr>,
                           \<lparr>order_id = 5, mainDish = 99, sideDishes = [1], dessert = Some 3,
                             createdAt = 2000\<rparr>]\<rparr>"

definition dangling_side_db :: db where
  "dangling_side_db =
     orders_db\<lparr>Order := [\<lparr>order_id = 4, mainDish = 0, sideDishes = [1, 2], dessert = None,
                             createdAt = 1000\<rparr>,
                           \<lparr>order_id = 5, mainDish = 0, sideDishes = [98, 98], dessert = Some 3,
                             createdAt = 2000\<rparr>]\<rparr>"

text \<open>
  The two orders after an update that left the second order with the side dishes 1 and
  98, of which only the first is in the catalog.
\<close>

definition mixed_db :: db where
  "mixed_db =
     orders_db\<lparr>Order := [\<lparr>order_id = 4, mainDish = 0, sideDishes = [1, 2], dessert = None,
                             createdAt = 1000\<rparr>,
                           \<lparr>order_id = 5, mainDish = 0, sideDishes = [1, 98], dessert = Some 3,
                             createdAt = 2000\<rparr>]\<rparr>"

section \<open>Properties of create\<close>

lemma resolve_sides_Inr:
  "list_all (\<lambda>n. findOne_name ds n \<noteq> None) ns \<Longrightarrow>
   resolve_sides ds ns acc = Inr (acc @ map (\<lambda>n. dish_id (the (findOne_name ds n))) ns)"
  by (induction ns arbitrary: acc) auto

lemma resolve_sides_first_missing:
  "list_all (\<lambda>n. findOne_name ds n \<noteq> None) pre \<Longrightarrow> findOne_name ds n = None \<Longrightarrow>
   resolve_sides ds (pre @ n # post) acc = Inl (NotFound (''Side dish '' @ n @ '' not found''))"
  by (induction pre arbitrary: acc) auto

lemma resolve_sides_Inl_NotFound:
  "resolve_sides ds ns acc = Inl e \<Longrightarrow> \<exists>msg. e = NotFound msg"
  by (induction ns arbitrary: acc) (auto split: option.splits)

lemma resolve_sides_missing:
  "n \<in> set ns \<Longrightarrow> findOne_name ds n = None \<Longrightarrow> \<exists>msg. resolve_sides ds ns acc = Inl (NotFound msg)"
  by (induction ns arbitrary: acc) (auto split: option.splits)

lemma post_order_failure_unchanged:
  "fst (post_order now body d) = Inl e \<Longrightarrow> snd (post_order now body d) = d"
  by (auto simp: post_order_def save_order_def Let_def split: option.splits sum.splits if_splits)

lemma post_order_success_appends:
  "fst (post_order now body d) = Inr r \<Longrightarrow>
   Dish (snd (post_order now body d)) = Dish d \<and> Order (snd (post_order now body d)) = Order d @ [r]"
  by (auto simp: post_order_def save_order_def Let_def split: option.splits sum.splits if_splits)

subsection \<open>Atomic create\<close>

text \<open>
  Claim C1, as the code has it. A request that passes the shape check (a non-empty
  main-dish name and a non-empty list of side dishes) and in which the main-dish name,
  some side-dish name or the supplied dessert name does not resolve to a Dish fails with
  \<open>NotFound\<close>. Every failing create, whatever its signal, leaves the database as
  it was. A successful create leaves the Dish collection as it was and adds exactly one
  record, the one it returns, to the Order collection.
\<close>

theorem post_order_atomic:
  "(\<not> falsy (b_mainDish body) \<and> b_sideDishes body = Some ss \<and> ss \<noteq> [] \<and>
     (findOne_name (Dish d) (the (b_mainDish body)) = None
      \<or> (\<exists>n. n \<in> set ss \<and> findOne_name (Dish d) n = None)
      \<or> (\<not> falsy (b_dessert body) \<and> findOne_name (Dish d) (the (b_dessert body)) = None))
    \<longrightarrow> (\<exists>msg. post_order now body d = (Inl (NotFound msg), d)))
   \<and> (\<forall>e. fst (post_order now body d) = Inl e \<longrightarrow> snd (post_order now body d) = d)
   \<and> (\<forall>r. fst (post_order now body d) = Inr r \<longrightarrow>
         Dish (snd (post_order now body d)) = Dish d \<and>
         Order (snd (post_order now body d)) = Order d @ [r] \<and>
         length (Order (snd (post_order now body d))) = Suc (length (Order d)))"
proof (intro conjI impI allI)
  assume a: "\<not> falsy (b_mainDish body) \<and> b_sideDishes body = Some ss \<and> ss \<noteq> [] \<and>
     (findOne_name (Dish d) (the (b_mainDish body)) = None
      \<or> (\<exists>n. n \<in> set ss \<and> findOne_name (Dish d) n = None)
      \<or> (\<not> falsy (b_dessert body) \<and> findOne_name (Dish d) (the (b_dessert body)) = None))"
  then have shape: "\<not> (falsy (b_mainDish body) \<or> b_sideDishes body = None \<or> b_sideDishes body = Some [])"
    by simp
  show "\<exists>msg. post_order now body d = (Inl (NotFound msg), d)"
  proof (cases "findOne_name (Dish d) (the (b_mainDish body))")
    case None
    with shape show ?thesis by (simp add: post_order_def)
  next
    case (Some main)
    show ?thesis
    proof (cases "resolve_sides (Dish d) ss []")
      case (Inl e)
      then obtain msg where "e = NotFound msg" using resolve_sides_Inl_NotFound by blast
      with shape Some Inl a show ?thesis by (simp add: post_order_def)
    next
      case (Inr ids)
      have all: "\<not> (\<exists>n. n \<in> set ss \<and> findOne_name (Dish d) n = None)"
      proof
        assume "\<exists>n. n \<in> set ss \<and> findOne_name (Dish d) n = None"
        then obtain n where "n \<in> set ss" "findOne_name (Dish d) n = None" by blast
        then have "\<exists>msg. resolve_sides (Dish d) ss [] = Inl (NotFound msg)"
          by (rule resolve_sides_missing)
        with Inr show False by simp
      qed
      with a Some have "\<not> falsy (b_dessert body) \<and> findOne_name (Dish d) (the (b_dessert body)) = None"
        by auto
      with shape Some Inr a show ?thesis by (simp add: post_order_def)
    qed
  qed
next
  fix e assume "fst (post_order now body d) = Inl e"
  then show "snd (post_order now body d) = d" by (rule post_order_failure_unchanged)
next
  fix r assume r: "fst (post_order now body d) = Inr r"
  from post_order_success_appends[OF r]
  show "Dish (snd (post_order now body d)) = Dish d" by simp
  from post_order_success_appends[OF r]
  show "Order (snd (post_order now body d)) = Order d @ [r]" by simp
  from post_order_success_appends[OF r]
  show "length (Order (snd (post_order now body d))) = Suc (length (Order d))" by simp
qed

theorem post_order_atomic_witness:
  "post_order 5 \<lparr>b_mainDish = Some ''Rice'', b_sideDishes = Some [''Wadai'', ''Ghost''], b_dessert = None\<rparr> small_db = (Inl (NotFound ''Side dish Ghost not found''), small_db)
   \<and> Order (snd (post_order 5 \<lparr>b_mainDish = Some ''Rice'', b_sideDishes = Some [''Wadai'', ''Dhal curry''], b_dessert = Some ''Jelly''\<rparr> small_db))
       = [\<lparr>order_id = 4, mainDish = 0, sideDishes = [1, 2], dessert = Some 3, createdAt = 5\<rparr>]"
  using
    post_order_atomic[where body = "\<lparr>b_mainDish = Some ''Rice'', b_sideDishes = Some [''Wadai'', ''Ghost''], b_dessert = None\<rparr>" and ss = "[''Wadai'', ''Ghost'']" and d = small_db and now = 5]
    post_order_atomic[where body = "\<lparr>b_mainDish = Some ''Rice'', b_sideDishes = Some [''Wadai'', ''Dhal curry''], b_dessert = Some ''Jelly''\<rparr>" and ss = "[''Wadai'', ''Dhal curry'']" and d = small_db and now = 5]
  by (simp add: small_db_def findOne_name_def falsy_def post_order_def save_order_def Let_def)

text \<open>
  The claim as the specification words it promises \<open>NotFound\<close> for every request
  with a name that does not resolve. A request whose main-dish name does not resolve and
  whose list of side dishes is empty is rejected by the shape check first, with
  \<open>InvalidRequest\<close>.
\<close>

theorem post_order_invalid_shape_counterexample:
  "findOne_name (Dish small_db) ''Ghost'' = None \<and>
   post_order 0 \<lparr>b_mainDish = Some ''Ghost'', b_sideDishes = Some [], b_dessert = None\<rparr> small_db
     = (Inl (InvalidRequest ''You must order at least one main dish and one side dish.''), small_db)"
  by (simp add: post_order_def findOne_name_def small_db_def falsy_def)

subsection \<open>The order of the validation steps\<close>

text \<open>
  Claim C2. Create validates in this order, and the first failure decides the answer:
  (1) a missing or empty main-dish name, or a missing or empty list of side dishes, is
  \<open>InvalidRequest\<close>, whatever the catalog holds; (2) otherwise a main-dish name that
  does not resolve is \<open>NotFound\<close> for the main dish; (3) otherwise the first
  side-dish name, in input order, that does not resolve is \<open>NotFound\<close> naming that
  side dish; (4) otherwise a supplied dessert name that does not resolve is
  \<open>NotFound\<close> for the dessert; a supplied dessert that resolves is stored as its
  identity, and an omitted dessert is stored as the null reference, with no error.
\<close>

theorem post_order_validation_order:
  "(falsy (b_mainDish body) \<or> b_sideDishes body = None \<or> b_sideDishes body = Some [] \<longrightarrow>
      post_order now body d =
        (Inl (InvalidRequest ''You must order at least one main dish and one side dish.''), d))
   \<and> (b_mainDish body = Some m \<and> m \<noteq> [] \<and> b_sideDishes body = Some ss \<and> ss \<noteq> [] \<and>
        findOne_name (Dish d) m = None \<longrightarrow>
      post_order now body d = (Inl (NotFound ''Main dish not found''), d))
   \<and> (b_mainDish body = Some m \<and> m \<noteq> [] \<and> b_sideDishes body = Some ss \<and> ss \<noteq> [] \<and>
        findOne_name (Dish d) m = Some main \<and>
        ss = pre @ n # post \<and> list_all (\<lambda>x. findOne_name (Dish d) x \<noteq> None) pre \<and>
        findOne_name (Dish d) n = None \<longrightarrow>
      post_order now body d = (Inl (NotFound (''Side dish '' @ n @ '' not found'')), d))
   \<and> (b_mainDish body = Some m \<and> m \<noteq> [] \<and> b_sideDishes body = Some ss \<and> ss \<noteq> [] \<and>
        findOne_name (Dish d) m = Some main \<and>
        list_all (\<lambda>x. findOne_name (Dish d) x \<noteq> None) ss \<and>
        b_dessert body = Some dn \<and> dn \<noteq> [] \<and> findOne_name (Dish d) dn = None \<longrightarrow>
      post_order now body d = (Inl (NotFound ''Dessert not found''), d))
   \<and> (b_mainDish body = Some m \<and> m \<noteq> [] \<and> b_sideDishes body = Some ss \<and> ss \<noteq> [] \<and>
        findOne_name (Dish d) m = Some main \<and>
        list_all (\<lambda>x. findOne_name (Dish d) x \<noteq> None) ss \<and>
        b_dessert body = Some dn \<and> dn \<noteq> [] \<and> findOne_name (Dish d) dn = Some de \<longrightarrow>
      fst (post_order now body d) =
        Inr \<lparr>order_id = nextId d, mainDish = dish_id main,
             sideDishes = map (\<lambda>x. dish_id (the (findOne_name (Dish d) x))) ss,
             dessert = Some (dish_id de), createdAt = now\<rparr>)
   \<and> (b_mainDish body = Some m \<and> m \<noteq> [] \<and> b_sideDishes body = Some ss \<and> ss \<noteq> [] \<and>
        findOne_name (Dish d) m = Some main \<and>
        list_all (\<lambda>x. findOne_name (Dish d) x \<noteq> None) ss \<and>
        falsy (b_dessert body) \<longrightarrow>
      fst (post_order now body d) =
        Inr \<lparr>order_id = nextId d, mainDish = dish_id main,
             sideDishes = map (\<lambda>x. dish_id (the (findOne_name (Dish d) x))) ss,
             dessert = None, createdAt = now\<rparr>)"
proof (intro conjI impI)
  assume "falsy (b_mainDish body) \<or> b_sideDishes body = None \<or> b_sideDishes body = Some []"
  then show "post_order now body d =
        (Inl (InvalidRequest ''You must order at least one main dish and one side dish.''), d)"
    by (simp add: post_order_def)
next
  assume "b_mainDish body = Some m \<and> m \<noteq> [] \<and> b_sideDishes body = Some ss \<and> ss \<noteq> [] \<and>
        findOne_name (Dish d) m = None"
  then show "post_order now body d = (Inl (NotFound ''Main dish not found''), d)"
    by (simp add: post_order_def falsy_def)
next
  assume a: "b_mainDish body = Some m \<and> m \<noteq> [] \<and> b_sideDishes body = Some ss \<and> ss \<noteq> [] \<and>
        findOne_name (Dish d) m = Some main \<and>
        ss = pre @ n # post \<and> list_all (\<lambda>x. findOne_name (Dish d) x \<noteq> None) pre \<and>
        findOne_name (Dish d) n = None"
  then have "resolve_sides (Dish d) ss [] = Inl (NotFound (''Side dish '' @ n @ '' not found''))"
    using resolve_sides_first_missing[of "Dish d" pre n post "[]"] by simp
  with a show "post_order now body d = (Inl (NotFound (''Side dish '' @ n @ '' not found'')), d)"
    by (simp add: post_order_def falsy_def)
next
  assume a: "b_mainDish body = Some m \<and> m \<noteq> [] \<and> b_sideDishes body = Some ss \<and> ss \<noteq> [] \<and>
        findOne_name (Dish d) m = Some main \<and>
        list_all (\<lambda>x. findOne_name (Dish d) x \<noteq> None) ss \<and>
        b_dessert body = Some dn \<and> dn \<noteq> [] \<and> findOne_name (Dish d) dn = None"
  then have "resolve_sides (Dish d) ss [] = Inr ([] @ map (\<lambda>x. dish_id (the (findOne_name (Dish d) x))) ss)"
    using resolve_sides_Inr[of "Dish d" ss "[]"] by simp
  with a show "post_order now body d = (Inl (NotFound ''Dessert not found''), d)"
    by (simp add: post_order_def falsy_def)
next
  assume a: "b_mainDish body = Some m \<and> m \<noteq> [] \<and> b_sideDishes body = Some ss \<and> ss \<noteq> [] \<and>
        findOne_name (Dish d) m = Some main \<and>
        list_all (\<lambda>x. findOne_name (Dish d) x \<noteq> None) ss \<and>
        b_dessert body = Some dn \<and> dn \<noteq> [] \<and> findOne_name (Dish d) dn = Some de"
  then have "resolve_sides (Dish d) ss [] = Inr ([] @ map (\<lambda>x. dish_id (the (findOne_name (Dish d) x))) ss)"
    using resolve_sides_Inr[of "Dish d" ss "[]"] by simp
  with a show "fst (post_order now body d) =
        Inr \<lparr>order_id = nextId d, mainDish = dish_id main,
             sideDishes = map (\<lambda>x. dish_id (the (findOne_name (Dish d) x))) ss,
             dessert = Some (dish_id de), createdAt = now\<rparr>"
    by (simp add: post_order_def falsy_def save_order_def Let_def)
next
  assume a: "b_mainDish body = Some m \<and> m \<noteq> [] \<and> b_sideDishes body = Some ss \<and> ss \<noteq> [] \<and>
        findOne_name (Dish d) m = Some main \<and>
        list_all (\<lambda>x. findOne_name (Dish d) x \<noteq> None) ss \<and>
        falsy (b_dessert body)"
  then have "resolve_sides (Dish d) ss [] = Inr ([] @ map (\<lambda>x. dish_id (the (findOne_name (Dish d) x))) ss)"
    using resolve_sides_Inr[of "Dish d" ss "[]"] by simp
  with a show "fst (post_order now body d) =
        Inr \<lparr>order_id = nextId d, mainDish = dish_id main,
             sideDishes = map (\<lambda>x. dish_id (the (findOne_name (Dish d) x))) ss,
             dessert = None, createdAt = now\<rparr>"
    by (simp add: post_order_def falsy_def save_order_def Let_def)
qed

theorem post_order_validation_order_witness:
  "post_order 5 \<lparr>b_mainDish = Some '''', b_sideDishes = Some [''Ghost''], b_dessert = None\<rparr> small_db = (Inl (InvalidRequest ''You must order at least one main dish and one side dish.''), small_db)
   \<and> post_order 5 \<lparr>b_mainDish = Some ''Ghost'', b_sideDishes = Some [''Phantom''], b_dessert = Some ''Spectre''\<rparr> small_db = (Inl (NotFound ''Main dish not found''), small_db)
   \<and> post_order 5 \<lparr>b_mainDish = Some ''Rice'', b_sideDishes = Some [''Wadai'', ''Ghost'', ''Phantom''], b_dessert = Some ''Spectre''\<rparr> small_db = (Inl (NotFound ''Side dish Ghost not found''), small_db)
   \<and> post_order 5 \<lparr>b_mainDish = Some ''Rice'', b_sideDishes = Some [''Wadai'', ''Dhal curry''], b_dessert = Some ''Spectre''\<rparr> small_db = (Inl (NotFound ''Dessert not found''), small_db)
   \<and> fst (post_order 5 \<lparr>b_mainDish = Some ''Rice'', b_sideDishes = Some [''Wadai'', ''Dhal curry''], b_dessert = Some ''Jelly''\<rparr> small_db)
       = Inr \<lparr>order_id = 4, mainDish = 0, sideDishes = [1, 2], dessert = Some 3, createdAt = 5\<rparr>
   \<and> fst (post_order 5 \<lparr>b_mainDish = Some ''Rice'', b_sideDishes = Some [''Wadai'', ''Dhal curry''], b_dessert = None\<rparr> small_db)
       = Inr \<lparr>order_id = 4, mainDish = 0, sideDishes = [1, 2], dessert = None, createdAt = 5\<rparr>"
  using
    post_order_validation_order[where body = "\<lparr>b_mainDish = Some '''', b_sideDishes = Some [''Ghost''], b_dessert = None\<rparr>" and now = 5 and d = small_db]
    post_order_validation_order[where body = "\<lparr>b_mainDish = Some ''Ghost'', b_sideDishes = Some [''Phantom''], b_dessert = Some ''Spectre''\<rparr>" and now = 5 and d = small_db
      and m = "''Ghost''" and ss = "[''Phantom'']"]
    post_order_validation_order[where body = "\<lparr>b_mainDish = Some ''Rice'', b_sideDishes = Some [''Wadai'', ''Ghost'', ''Phantom''], b_dessert = Some ''Spectre''\<rparr>" and now = 5 and d = small_db
      and m = "''Rice''" and ss = "[''Wadai'', ''Ghost'', ''Phantom'']" and main = "\<lparr>dish_id = 0, dish_type = ''main'', name = ''Rice'', price = 100\<rparr>"
      and pre = "[''Wadai'']" and n = "''Ghost''" and post = "[''Phantom'']"]
    post_order_validation_order[where body = "\<lparr>b_mainDish = Some ''Rice'', b_sideDishes = Some [''Wadai'', ''Dhal curry''], b_dessert = Some ''Spectre''\<rparr>" and now = 5 and d = small_db
      and m = "''Rice''" and ss = "[''Wadai'', ''Dhal curry'']" and main = "\<lparr>dish_id = 0, dish_type = ''main'', name = ''Rice'', price = 100\<rparr>"
      and dn = "''Spectre''"]
    post_order_validation_order[where body = "\<lparr>b_mainDish = Some ''Rice'', b_sideDishes = Some [''Wadai'', ''Dhal curry''], b_dessert = Some ''Jelly''\<rparr>" and now = 5 and d = small_db
      and m = "''Rice''" and ss = "[''Wadai'', ''Dhal curry'']" and main = "\<lparr>dish_id = 0, dish_type = ''main'', name = ''Rice'', price = 100\<rparr>"
      and dn = "''Jelly''" and de = "\<lparr>dish_id = 3, dish_type = ''dessert'', name = ''Jelly'', price = 20\<rparr>"]
    post_order_validation_order[where body = "\<lparr>b_mainDish = Some ''Rice'', b_sideDishes = Some [''Wadai'', ''Dhal curry''], b_dessert = None\<rparr>" and now = 5 and d = small_db
      and m = "''Rice''" and ss = "[''Wadai'', ''Dhal curry'']" and main = "\<lparr>dish_id = 0, dish_type = ''main'', name = ''Rice'', price = 100\<rparr>"]
  by (simp add: small_db_def findOne_name_def falsy_def)

section \<open>Properties of the aggregation stages\<close>

text \<open>
  The grouping stage yields exactly one row per key that occurs, with the number of
  occurrences of the key; the sorting stage permutes the rows and puts a row of greatest
  count first.
\<close>

lemma bump_keys: "map fst (bump k gs) = (if k \<in> set (map fst gs) then map fst gs else map fst gs @ [k])"
  by (induction gs) (auto simp: rev_image_eqI)

lemma bump_distinct: "distinct (map fst gs) \<Longrightarrow> distinct (map fst (bump k gs))"
  by (simp add: bump_keys)

lemma map_of_bump:
  "map_of (bump k gs) k' =
     (if k' = k then Some (case map_of gs k of None \<Rightarrow> 1 | Some c \<Rightarrow> Suc c) else map_of gs k')"
  by (induction gs) auto

lemma foldl_bump_distinct:
  "distinct (map fst acc) \<Longrightarrow> distinct (map fst (foldl (\<lambda>gs k. bump k gs) acc ks))"
  by (induction ks arbitrary: acc) (auto simp: bump_distinct)

lemma foldl_bump_map_of:
  "map_of (foldl (\<lambda>gs k. bump k gs) acc ks) k =
     (case map_of acc k of
        None \<Rightarrow> (if k \<in> set ks then Some (count_list ks k) else None)
      | Some c \<Rightarrow> Some (c + count_list ks k))"
  by (induction ks arbitrary: acc) (auto simp: map_of_bump split: option.splits)

lemma group_count_distinct: "distinct (map fst (group_count ks))"
  by (simp add: group_count_def foldl_bump_distinct)

lemma group_count_map_of:
  "map_of (group_count ks) k = (if k \<in> set ks then Some (count_list ks k) else None)"
  by (simp add: group_count_def foldl_bump_map_of)

lemma group_count_set:
  "(k, c) \<in> set (group_count ks) \<longleftrightarrow> k \<in> set ks \<and> c = count_list ks k"
proof -
  have "(k, c) \<in> set (group_count ks) \<longleftrightarrow> map_of (group_count ks) k = Some c"
    using group_count_distinct[of ks] by simp
  then show ?thesis by (auto simp: group_count_map_of)
qed


lemma sort_count_desc_set: "set (sort_count_desc gs) = set gs"
  by (simp add: sort_count_desc_def)

lemma sort_count_desc_sorted: "sorted (map (\<lambda>g. - int (snd g)) (sort_count_desc gs))"
  by (simp add: sort_count_desc_def)

lemma find_sorted_max:
  "sorted (map key xs) \<Longrightarrow> find P xs = Some x \<Longrightarrow> y \<in> set xs \<Longrightarrow> P y \<Longrightarrow> key x \<le> (key y :: int)"
  by (induction xs) (auto split: if_splits)

lemma find_in_set: "find P xs = Some x \<Longrightarrow> x \<in> set xs \<and> P x"
  by (induction xs) (auto split: if_splits)

lemma find_None_all: "find P xs = None \<longleftrightarrow> (\<forall>x\<in>set xs. \<not> P x)"
  by (induction xs) auto




section \<open>Properties of the most-famous-main-dish report\<close>



section \<open>Properties of the most-common-pair report\<close>

text \<open>
  The pipeline after the sort amounts to a search: its single row is the first sorted
  group whose two identities both resolve, joined with the two dishes.
\<close>

lemma lookup_dish_Nil_iff: "lookup_dish ds i = [] \<longleftrightarrow> findById_dish ds i = None"
  by (induction ds) (auto simp: lookup_dish_def findById_dish_def)

lemma lookup_dish_hd: "findById_dish ds i = Some x \<Longrightarrow> \<exists>rest. lookup_dish ds i = x # rest"
  by (induction ds) (auto simp: lookup_dish_def findById_dish_def split: if_splits)

lemma unwind_twice:
  "concat (map (\<lambda>(g, m, ss). map (\<lambda>s. (g, m, s)) ss)
     (concat (map (\<lambda>(g, ms, ss). map (\<lambda>m. (g, m, ss)) ms)
        (map (\<lambda>g. (g, L (fst (fst g)), L (snd (fst g)))) gs))))
   = concat (map (\<lambda>g. concat (map (\<lambda>m. map (\<lambda>s. (g, m, s)) (L (snd (fst g)))) (L (fst (fst g))))) gs)"
  by (induction gs) (auto simp: o_def map_concat)

lemma take1_concat_find:
  "take 1 (concat (map f gs)) =
     (case find (\<lambda>g. f g \<noteq> []) gs of None \<Rightarrow> [] | Some g \<Rightarrow> [hd (f g)])"
proof (induction gs)
  case Nil
  then show ?case by simp
next
  case (Cons g gs)
  show ?case
  proof (cases "f g")
    case Nil
    with Cons show ?thesis by simp
  next
    case (Cons x xs)
    then show ?thesis by simp
  qed
qed

lemma pair_pipeline_find:
  "pair_pipeline d =
     (case find (\<lambda>g. pair_resolves (Dish d) (fst g))
             (sort_count_desc (group_count (unwind_sideDishes (Order d)))) of
        None \<Rightarrow> []
      | Some g \<Rightarrow> [(g, the (findById_dish (Dish d) (fst (fst g))),
                       the (findById_dish (Dish d) (snd (fst g))))])"
proof -
  let ?L = "lookup_dish (Dish d)"
  let ?f = "\<lambda>g. concat (map (\<lambda>m. map (\<lambda>s. (g, m, s)) (?L (snd (fst g)))) (?L (fst (fst g))))"
  let ?gs = "sort_count_desc (group_count (unwind_sideDishes (Order d)))"
  have nonempty: "(?f g \<noteq> []) = pair_resolves (Dish d) (fst g)" for g
  proof (cases "?L (fst (fst g))")
    case Nil
    then show ?thesis using lookup_dish_Nil_iff[of "Dish d" "fst (fst g)"]
      by (simp add: pair_resolves_def)
  next
    case (Cons m ms)
    then have "findById_dish (Dish d) (fst (fst g)) \<noteq> None"
      using lookup_dish_Nil_iff[of "Dish d" "fst (fst g)"] by simp
    with Cons show ?thesis using lookup_dish_Nil_iff[of "Dish d" "snd (fst g)"]
      by (auto simp: pair_resolves_def)
  qed
  have hd_row: "hd (?f g) = (g, the (findById_dish (Dish d) (fst (fst g))),
                       the (findById_dish (Dish d) (snd (fst g))))"
    if "pair_resolves (Dish d) (fst g)" for g
  proof -
    from that obtain m s where ms: "findById_dish (Dish d) (fst (fst g)) = Some m"
      "findById_dish (Dish d) (snd (fst g)) = Some s"
      by (auto simp: pair_resolves_def)
    from lookup_dish_hd[OF ms(1)] lookup_dish_hd[OF ms(2)]
    obtain r1 r2 where "?L (fst (fst g)) = m # r1" "?L (snd (fst g)) = s # r2" by blast
    with ms show ?thesis by simp
  qed
  have "pair_pipeline d = take 1 (concat (map ?f ?gs))"
    unfolding pair_pipeline_def Let_def by (simp only: unwind_twice)
  also have "\<dots> = (case find (\<lambda>g. ?f g \<noteq> []) ?gs of None \<Rightarrow> [] | Some g \<Rightarrow> [hd (?f g)])"
    by (rule take1_concat_find)
  also have "\<dots> = (case find (\<lambda>g. pair_resolves (Dish d) (fst g)) ?gs of None \<Rightarrow> []
      | Some g \<Rightarrow> [hd (?f g)])"
    by (simp only: nonempty)
  also have "\<dots> = (case find (\<lambda>g. pair_resolves (Dish d) (fst g)) ?gs of None \<Rightarrow> []
      | Some g \<Rightarrow> [(g, the (findById_dish (Dish d) (fst (fst g))),
                       the (findById_dish (Dish d) (snd (fst g))))])"
  proof (cases "find (\<lambda>g. pair_resolves (Dish d) (fst g)) ?gs")
    case None
    then show ?thesis by simp
  next
    case (Some g)
    then have "pair_resolves (Dish d) (fst g)" by (auto dest: find_in_set)
    from hd_row[OF this] Some show ?thesis by simp
  qed
  finally show ?thesis .
qed

lemma most_common_pair_find:
  "most_common_pair d =
     (case find (\<lambda>g. pair_resolves (Dish d) (fst g))
             (sort_count_desc (group_count (unwind_sideDishes (Order d)))) of
        None \<Rightarrow> NoPairingsFound
      | Some g \<Rightarrow> Pairing (name (the (findById_dish (Dish d) (fst (fst g)))))
                         (name (the (findById_dish (Dish d) (snd (fst g))))) (snd g))"
  by (simp add: most_common_pair_def pair_pipeline_find split: option.splits)

lemma most_common_pair_none:
  assumes "\<forall>p\<in>set (unwind_sideDishes (Order d)). \<not> pair_resolves (Dish d) p"
  shows "most_common_pair d = NoPairingsFound"
proof -
  let ?gs = "sort_count_desc (group_count (unwind_sideDishes (Order d)))"
  have "\<forall>g\<in>set ?gs. \<not> pair_resolves (Dish d) (fst g)"
    using assms by (auto simp: sort_count_desc_set group_count_set)
  then have "find (\<lambda>g. pair_resolves (Dish d) (fst g)) ?gs = None"
    by (simp add: find_None_all)
  then show ?thesis by (simp add: most_common_pair_find)
qed

lemma most_common_pair_some:
  assumes "p \<in> set (unwind_sideDishes (Order d))" and "pair_resolves (Dish d) p"
  shows "\<exists>m s dm dsd. (m, s) \<in> set (unwind_sideDishes (Order d))
          \<and> findById_dish (Dish d) m = Some dm \<and> findById_dish (Dish d) s = Some dsd
          \<and> (\<forall>q\<in>set (unwind_sideDishes (Order d)). pair_resolves (Dish d) q \<longrightarrow>
                count_list (unwind_sideDishes (Order d)) q
                  \<le> count_list (unwind_sideDishes (Order d)) (m, s))
          \<and> most_common_pair d = Pairing (name dm) (name dsd)
                (count_list (unwind_sideDishes (Order d)) (m, s))"
proof -
  let ?ps = "unwind_sideDishes (Order d)"
  let ?gs = "sort_count_desc (group_count ?ps)"
  let ?P = "\<lambda>g. pair_resolves (Dish d) (fst g)"
  have "(p, count_list ?ps p) \<in> set ?gs"
    using assms(1) by (simp add: sort_count_desc_set group_count_set)
  with assms(2) have "find ?P ?gs \<noteq> None"
    unfolding find_None_all by force
  then obtain g where g: "find ?P ?gs = Some g" by auto
  obtain m s c where gm: "g = ((m, s), c)" by (cases g) auto
  from find_in_set[OF g] have gin: "g \<in> set ?gs" and gres: "pair_resolves (Dish d) (fst g)"
    by simp_all
  from gin gm have ms: "(m, s) \<in> set ?ps" and c: "c = count_list ?ps (m, s)"
    by (simp_all add: sort_count_desc_set group_count_set)
  from gres gm obtain dm dsd where dd: "findById_dish (Dish d) m = Some dm"
      "findById_dish (Dish d) s = Some dsd"
    by (auto simp: pair_resolves_def)
  have mx: "count_list ?ps q \<le> count_list ?ps (m, s)"
    if "q \<in> set ?ps" "pair_resolves (Dish d) q" for q
  proof -
    have "(q, count_list ?ps q) \<in> set ?gs"
      using that(1) by (simp add: sort_count_desc_set group_count_set)
    from find_sorted_max[OF sort_count_desc_sorted g this] that(2) gm c
    show ?thesis by simp
  qed
  have "most_common_pair d = Pairing (name dm) (name dsd) (count_list ?ps (m, s))"
    using g gm c dd by (simp add: most_common_pair_find)
  with ms dd mx show ?thesis by blast
qed

lemma count_list_unwind:
  "count_list (unwind_sideDishes rs) (m, s) =
     (\<Sum>r\<leftarrow>rs. if mainDish r = m then count_list (sideDishes r) s else 0)"
proof -
  have inner: "count_list (map (\<lambda>x. (a, x)) xs) (m, s) = (if a = m then count_list xs s else 0)" for a xs
    by (induction xs) auto
  show ?thesis
    by (induction rs) (auto simp: unwind_sideDishes_def inner)
qed

lemma example_pairs:
  assumes "Order d = [o1, o2]" "mainDish o1 = A" "sideDishes o1 = [X, Y]"
    "mainDish o2 = A" "sideDishes o2 = [X]" "X \<noteq> Y"
    "findById_dish (Dish d) A = Some a" "findById_dish (Dish d) X = Some x"
    "findById_dish (Dish d) Y = Some y"
  shows "most_common_pair d = Pairing (name a) (name x) 2"
proof -
  have "unwind_sideDishes (Order d) = [(A, X), (A, Y), (A, X)]"
    using assms by (simp add: unwind_sideDishes_def)
  moreover have "group_count [(A, X), (A, Y), (A, X)] = [((A, X), 2), ((A, Y), 1)]"
    using assms(6) by (simp add: group_count_def)
  moreover have "sort_count_desc [((A, X), 2), ((A, Y), 1::nat)] = [((A, X), 2), ((A, Y), 1)]"
    by (simp add: sort_count_desc_def)
  ultimately show ?thesis using assms
    by (simp add: most_common_pair_find pair_resolves_def)
qed

text \<open>
  Claim C3, as the code has it. The report flattens every order into one (main, side)
  pair per side dish, so that a pair occurs as often as the orders with that main dish
  list that side dish, and counts the pairs. It answers with the names and the count of
  a pair of greatest count among the pairs whose two identities both resolve to dishes;
  when a pair of greatest count among all pairs resolves, the pair of the answer has the
  greatest count among all pairs. For the two orders (main A, sides X and Y) and (main
  A, side X), with A, X and Y in the catalog, the pair (A, X) has count 2, the pair
  (A, Y) has count 1, and the report answers with (A, X) and 2. With an empty Order
  collection, and whenever no pair resolves, the report answers that no pairings were
  found.
\<close>

theorem most_common_pair_report:
  "count_list (unwind_sideDishes (Order d)) (m, s) =
     (\<Sum>r\<leftarrow>Order d. if mainDish r = m then count_list (sideDishes r) s else 0)
   \<and> (Order d = [] \<longrightarrow> most_common_pair d = NoPairingsFound)
   \<and> ((\<forall>q\<in>set (unwind_sideDishes (Order d)). \<not> pair_resolves (Dish d) q) \<longrightarrow>
        most_common_pair d = NoPairingsFound)
   \<and> (p \<in> set (unwind_sideDishes (Order d)) \<and> pair_resolves (Dish d) p \<longrightarrow>
        (\<exists>m s dm dsd. (m, s) \<in> set (unwind_sideDishes (Order d))
           \<and> findById_dish (Dish d) m = Some dm \<and> findById_dish (Dish d) s = Some dsd
           \<and> (\<forall>q\<in>set (unwind_sideDishes (Order d)). pair_resolves (Dish d) q \<longrightarrow>
                 count_list (unwind_sideDishes (Order d)) q
                   \<le> count_list (unwind_sideDishes (Order d)) (m, s))
           \<and> most_common_pair d = Pairing (name dm) (name dsd)
                 (count_list (unwind_sideDishes (Order d)) (m, s))))
   \<and> (p \<in> set (unwind_sideDishes (Order d)) \<and> pair_resolves (Dish d) p \<and>
        (\<forall>q. count_list (unwind_sideDishes (Order d)) q
                \<le> count_list (unwind_sideDishes (Order d)) p) \<longrightarrow>
        (\<exists>m s dm dsd. (m, s) \<in> set (unwind_sideDishes (Order d))
           \<and> findById_dish (Dish d) m = Some dm \<and> findById_dish (Dish d) s = Some dsd
           \<and> (\<forall>q. count_list (unwind_sideDishes (Order d)) q
                     \<le> count_list (unwind_sideDishes (Order d)) (m, s))
           \<and> most_common_pair d = Pairing (name dm) (name dsd)
                 (count_list (unwind_sideDishes (Order d)) (m, s))))
   \<and> (Order d = [o1, o2] \<and> mainDish o1 = A \<and> sideDishes o1 = [X, Y] \<and>
        mainDish o2 = A \<and> sideDishes o2 = [X] \<and> X \<noteq> Y \<and>
        findById_dish (Dish d) A = Some a \<and> findById_dish (Dish d) X = Some x \<and>
        findById_dish (Dish d) Y = Some y \<longrightarrow>
        count_list (unwind_sideDishes (Order d)) (A, X) = 2 \<and>
        count_list (unwind_sideDishes (Order d)) (A, Y) = 1 \<and>
        most_common_pair d = Pairing (name a) (name x) 2)"
proof (intro conjI impI)
  show "count_list (unwind_sideDishes (Order d)) (m, s) =
     (\<Sum>r\<leftarrow>Order d. if mainDish r = m then count_list (sideDishes r) s else 0)"
    by (rule count_list_unwind)
next
  assume "Order d = []"
  then have "\<forall>p\<in>set (unwind_sideDishes (Order d)). \<not> pair_resolves (Dish d) p"
    by (simp add: unwind_sideDishes_def)
  then show "most_common_pair d = NoPairingsFound" by (rule most_common_pair_none)
next
  assume "\<forall>q\<in>set (unwind_sideDishes (Order d)). \<not> pair_resolves (Dish d) q"
  then show "most_common_pair d = NoPairingsFound" by (rule most_common_pair_none)
next
  assume "p \<in> set (unwind_sideDishes (Order d)) \<and> pair_resolves (Dish d) p"
  then have "p \<in> set (unwind_sideDishes (Order d))" "pair_resolves (Dish d) p" by simp_all
  then show "\<exists>m s dm dsd. (m, s) \<in> set (unwind_sideDishes (Order d))
           \<and> findById_dish (Dish d) m = Some dm \<and> findById_dish (Dish d) s = Some dsd
           \<and> (\<forall>q\<in>set (unwind_sideDishes (Order d)). pair_resolves (Dish d) q \<longrightarrow>
                 count_list (unwind_sideDishes (Order d)) q
                   \<le> count_list (unwind_sideDishes (Order d)) (m, s))
           \<and> most_common_pair d = Pairing (name dm) (name dsd)
                 (count_list (unwind_sideDishes (Order d)) (m, s))"
    by (rule most_common_pair_some)
next
  let ?ps = "unwind_sideDishes (Order d)"
  assume a: "p \<in> set ?ps \<and> pair_resolves (Dish d) p \<and>
        (\<forall>q. count_list ?ps q \<le> count_list ?ps p)"
  then have p: "p \<in> set ?ps" "pair_resolves (Dish d) p" by simp_all
  from most_common_pair_some[OF p]
  obtain m s dm dsd where r: "(m, s) \<in> set ?ps" "findById_dish (Dish d) m = Some dm"
      "findById_dish (Dish d) s = Some dsd"
      "\<forall>q\<in>set ?ps. pair_resolves (Dish d) q \<longrightarrow> count_list ?ps q \<le> count_list ?ps (m, s)"
      "most_common_pair d = Pairing (name dm) (name dsd) (count_list ?ps (m, s))"
    by blast
  from r(4) p have "count_list ?ps p \<le> count_list ?ps (m, s)" by blast
  with a have "count_list ?ps q \<le> count_list ?ps (m, s)" for q
    using order_trans by blast
  with r show "\<exists>m s dm dsd. (m, s) \<in> set ?ps
           \<and> findById_dish (Dish d) m = Some dm \<and> findById_dish (Dish d) s = Some dsd
           \<and> (\<forall>q. count_list ?ps q \<le> count_list ?ps (m, s))
           \<and> most_common_pair d = Pairing (name dm) (name dsd) (count_list ?ps (m, s))"
    by blast
next
  assume a: "Order d = [o1, o2] \<and> mainDish o1 = A \<and> sideDishes o1 = [X, Y] \<and>
        mainDish o2 = A \<and> sideDishes o2 = [X] \<and> X \<noteq> Y \<and>
        findById_dish (Dish d) A = Some a \<and> findById_dish (Dish d) X = Some x \<and>
        findById_dish (Dish d) Y = Some y"
  then have ps: "unwind_sideDishes (Order d) = [(A, X), (A, Y), (A, X)]"
    by (simp add: unwind_sideDishes_def)
  from a ps show "count_list (unwind_sideDishes (Order d)) (A, X) = 2" by simp
  from a ps show "count_list (unwind_sideDishes (Order d)) (A, Y) = 1" by simp
  from a show "most_common_pair d = Pairing (name a) (name x) 2"
    using example_pairs[of d o1 o2 A X Y a x y] by simp
qed

theorem most_common_pair_report_witness:
  "count_list (unwind_sideDishes (Order orders_db)) (0, 1) = 2
   \<and> count_list (unwind_sideDishes (Order orders_db)) (0, 2) = 1
   \<and> most_common_pair orders_db = Pairing ''Rice'' ''Wadai'' 2
   \<and> most_common_pair small_db = NoPairingsFound
   \<and> \<not> pair_resolves (Dish mixed_db) (0, 98)
   \<and> most_common_pair mixed_db = Pairing ''Rice'' ''Wadai'' 2"
proof -
  note ex = most_common_pair_report[where d = orders_db and ?o1.0 = "\<lparr>order_id = 4, mainDish = 0, sideDishes = [1, 2], dessert = None, createdAt = 1000\<rparr>" and ?o2.0 = "\<lparr>order_id = 5, mainDish = 0, sideDishes = [1], dessert = Some 3, createdAt = 2000\<rparr>"
      and A = 0 and X = 1 and Y = 2 and a = "\<lparr>dish_id = 0, dish_type = ''main'', name = ''Rice'', price = 100\<rparr>" and x = "\<lparr>dish_id = 1, dish_type = ''side'', name = ''Wadai'', price = 45\<rparr>" and y = "\<lparr>dish_id = 2, dish_type = ''side'', name = ''Dhal curry'', price = 75\<rparr>",
      THEN conjunct2, THEN conjunct2, THEN conjunct2, THEN conjunct2, THEN conjunct2]
  have c1: "count_list (unwind_sideDishes (Order orders_db)) (0, 1) = 2
      \<and> count_list (unwind_sideDishes (Order orders_db)) (0, 2) = 1
      \<and> most_common_pair orders_db = Pairing ''Rice'' ''Wadai'' 2"
    using ex by (simp add: orders_db_def small_db_def findById_dish_def)
  have c2: "most_common_pair small_db = NoPairingsFound"
    using most_common_pair_report[where d = small_db, THEN conjunct2, THEN conjunct1]
    by (simp add: small_db_def)
  let ?ps = "unwind_sideDishes (Order mixed_db)"
  have ps: "?ps = [(0, 1), (0, 2), (0, 1), (0, 98)]"
    by (simp add: mixed_db_def orders_db_def small_db_def unwind_sideDishes_def)
  have f0: "findById_dish (Dish mixed_db) 0 = Some \<lparr>dish_id = 0, dish_type = ''main'', name = ''Rice'', price = 100\<rparr>"
    and f1: "findById_dish (Dish mixed_db) 1 = Some \<lparr>dish_id = 1, dish_type = ''side'', name = ''Wadai'', price = 45\<rparr>"
    and f98: "findById_dish (Dish mixed_db) 98 = None"
    by (simp_all add: mixed_db_def orders_db_def small_db_def findById_dish_def)
  have top: "(0, 1) \<in> set ?ps \<and> pair_resolves (Dish mixed_db) (0, 1) \<and>
      (\<forall>q. count_list ?ps q \<le> count_list ?ps (0, 1))"
    using f0 f1 by (simp add: ps pair_resolves_def)
  from most_common_pair_report[where d = mixed_db and p = "(0, 1)",
      THEN conjunct2, THEN conjunct2, THEN conjunct2, THEN conjunct2, THEN conjunct1,
      rule_format, OF top]
  obtain m s dm dsd where r: "(m, s) \<in> set ?ps"
      "findById_dish (Dish mixed_db) m = Some dm"
      "findById_dish (Dish mixed_db) s = Some dsd"
      "\<forall>q. count_list ?ps q \<le> count_list ?ps (m, s)"
      "most_common_pair mixed_db = Pairing (name dm) (name dsd) (count_list ?ps (m, s))"
    by blast
  from r(4) have "count_list ?ps (0, 1) \<le> count_list ?ps (m, s)" by blast
  with r(1) have "m = 0 \<and> s = 1" by (auto simp: ps)
  with r f0 f1 have c3: "most_common_pair mixed_db = Pairing ''Rice'' ''Wadai'' 2"
    by (auto simp: ps)
  show ?thesis using c1 c2 c3 f98 by (simp add: pair_resolves_def)
qed

text \<open>
  The claim as the specification words it promises the pair of greatest count. After an
  update that left the second of the two orders with the side dishes 98 and 98, which
  are not in the catalog, the pair (0, 98) has count 2, the greatest, and the report
  answers with the pair of Rice and Wadai, of count 1.
\<close>

theorem most_common_pair_dangling_counterexample:
  "count_list (unwind_sideDishes (Order dangling_side_db)) (0, 98) = 2
   \<and> count_list (unwind_sideDishes (Order dangling_side_db)) (0, 1) = 1
   \<and> most_common_pair dangling_side_db = Pairing ''Rice'' ''Wadai'' 1"
  by code_simp

text \<open>
  Claim C10. The lookups and their unwinding stand between the sort and the limit, so a
  pair with an identity that does not resolve is dropped before the first row is taken:
  the report answers with a pair of greatest count among the pairs that resolve, and
  when no pair resolves (as when every dish is gone) it answers that no pairings were
  found, although the Order collection is not empty.
\<close>

theorem most_common_pair_drops_unresolved:
  "((\<forall>p\<in>set (unwind_sideDishes (Order d)). \<not> pair_resolves (Dish d) p) \<longrightarrow>
       most_common_pair d = NoPairingsFound)
   \<and> (p \<in> set (unwind_sideDishes (Order d)) \<and> pair_resolves (Dish d) p \<longrightarrow>
        (\<exists>m s dm dsd. (m, s) \<in> set (unwind_sideDishes (Order d))
           \<and> findById_dish (Dish d) m = Some dm \<and> findById_dish (Dish d) s = Some dsd
           \<and> (\<forall>q\<in>set (unwind_sideDishes (Order d)). pair_resolves (Dish d) q \<longrightarrow>
                 count_list (unwind_sideDishes (Order d)) q
                   \<le> count_list (unwind_sideDishes (Order d)) (m, s))
           \<and> most_common_pair d = Pairing (name dm) (name dsd)
                 (count_list (unwind_sideDishes (Order d)) (m, s))))
   \<and> (Dish d = [] \<longrightarrow> most_common_pair d = NoPairingsFound)"
proof (intro conjI impI)
  assume "\<forall>p\<in>set (unwind_sideDishes (Order d)). \<not> pair_resolves (Dish d) p"
  then show "most_common_pair d = NoPairingsFound" by (rule most_common_pair_none)
next
  assume "p \<in> set (unwind_sideDishes (Order d)) \<and> pair_resolves (Dish d) p"
  then have "p \<in> set (unwind_sideDishes (Order d))" "pair_resolves (Dish d) p" by simp_all
  then show "\<exists>m s dm dsd. (m, s) \<in> set (unwind_sideDishes (Order d))
           \<and> findById_dish (Dish d) m = Some dm \<and> findById_dish (Dish d) s = Some dsd
           \<and> (\<forall>q\<in>set (unwind_sideDishes (Order d)). pair_resolves (Dish d) q \<longrightarrow>
                 count_list (unwind_sideDishes (Order d)) q
                   \<le> count_list (unwind_sideDishes (Order d)) (m, s))
           \<and> most_common_pair d = Pairing (name dm) (name dsd)
                 (count_list (unwind_sideDishes (Order d)) (m, s))"
    by (rule most_common_pair_some)
next
  assume "Dish d = []"
  then have "\<forall>p\<in>set (unwind_sideDishes (Order d)). \<not> pair_resolves (Dish d) p"
    by (simp add: pair_resolves_def findById_dish_def)
  then show "most_common_pair d = NoPairingsFound" by (rule most_common_pair_none)
qed

theorem most_common_pair_drops_unresolved_witness:
  "count_list (unwind_sideDishes (Order dangling_db)) (0, 1) = 2
   \<and> \<not> pair_resolves (Dish dangling_db) (0, 1)
   \<and> most_common_pair dangling_db = Pairing ''Rice'' ''Dhal curry'' 1
   \<and> Order (orders_db\<lparr>Dish := []\<rparr>) \<noteq> []
   \<and> most_common_pair (orders_db\<lparr>Dish := []\<rparr>) = NoPairingsFound"
proof -
  let ?ps = "unwind_sideDishes (Order dangling_db)"
  have ps: "?ps = [(0, 1), (0, 2), (0, 1)]"
    by (simp add: dangling_db_def orders_db_def small_db_def unwind_sideDishes_def)
  have f0: "findById_dish (Dish dangling_db) 0 = Some \<lparr>dish_id = 0, dish_type = ''main'', name = ''Rice'', price = 100\<rparr>"
    and f1: "findById_dish (Dish dangling_db) 1 = None"
    and f2: "findById_dish (Dish dangling_db) 2 = Some \<lparr>dish_id = 2, dish_type = ''side'', name = ''Dhal curry'', price = 75\<rparr>"
    by (simp_all add: dangling_db_def findById_dish_def)
  have in02: "(0, 2) \<in> set ?ps \<and> pair_resolves (Dish dangling_db) (0, 2)"
    by (simp add: ps pair_resolves_def f0 f2)
  from most_common_pair_drops_unresolved[where d = dangling_db and p = "(0, 2)"] in02
  obtain m s dm dsd where r: "(m, s) \<in> set ?ps"
      "findById_dish (Dish dangling_db) m = Some dm"
      "findById_dish (Dish dangling_db) s = Some dsd"
      "most_common_pair dangling_db = Pairing (name dm) (name dsd) (count_list ?ps (m, s))"
    by blast
  from r(1,3) f1 have "m = 0 \<and> s = 2" by (auto simp: ps)
  with r f0 f2 have top: "most_common_pair dangling_db = Pairing ''Rice'' ''Dhal curry'' 1"
    by (auto simp: ps)
  have "Dish (orders_db\<lparr>Dish := []\<rparr>) = []" by simp
  with most_common_pair_drops_unresolved[where d = "orders_db\<lparr>Dish := []\<rparr>"]
  have none: "most_common_pair (orders_db\<lparr>Dish := []\<rparr>) = NoPairingsFound" by blast
  have "Order (orders_db\<lparr>Dish := []\<rparr>) \<noteq> []" by (simp add: orders_db_def)
  with top none f1 show ?thesis by (simp add: ps pair_resolves_def)
qed

section \<open>Properties of update and delete\<close>

text \<open>
  Both queries act on the first order with the identity: the orders before it do not
  have the identity, and the orders around it are left as they are.
\<close>

lemma findByIdAndUpdate_None:
  "findById_order rs i = None \<Longrightarrow> findByIdAndUpdate rs i u = (None, rs)"
  by (induction rs) (auto simp: findById_order_def split: if_splits)

lemma findByIdAndUpdate_Some:
  assumes "findById_order rs i = Some r"
    and "r' = r\<lparr>mainDish := (case u_mainDish u of None \<Rightarrow> mainDish r | Some m \<Rightarrow> m),
                    sideDishes := (case u_sideDishes u of None \<Rightarrow> sideDishes r | Some ss \<Rightarrow> ss),
                    dessert := (case u_dessert u of None \<Rightarrow> dessert r | Some de \<Rightarrow> de)\<rparr>"
  shows "\<exists>pre post. rs = pre @ r # post \<and> list_all (\<lambda>x. order_id x \<noteq> i) pre \<and>
     findByIdAndUpdate rs i u = (Some r', pre @ r' # post)"
  using assms(1)
proof (induction rs)
  case Nil
  then show ?case by (simp add: findById_order_def)
next
  case (Cons x rs)
  show ?case
  proof (cases "order_id x = i")
    case True
    with Cons.prems have "x = r" by (simp add: findById_order_def)
    with True assms(2) have "x # rs = [] @ r # rs \<and> list_all (\<lambda>x. order_id x \<noteq> i) [] \<and>
     findByIdAndUpdate (x # rs) i u = (Some r', [] @ r' # rs)"
      by (simp add: Let_def)
    then show ?thesis by blast
  next
    case False
    with Cons.prems have "findById_order rs i = Some r" by (simp add: findById_order_def)
    from Cons.IH[OF this] obtain pre post where
      p: "rs = pre @ r # post" "list_all (\<lambda>x. order_id x \<noteq> i) pre"
         "findByIdAndUpdate rs i u = (Some r', pre @ r' # post)"
      by blast
    with False have "x # rs = (x # pre) @ r # post \<and> list_all (\<lambda>x. order_id x \<noteq> i) (x # pre) \<and>
     findByIdAndUpdate (x # rs) i u = (Some r', (x # pre) @ r' # post)"
      by simp
    then show ?thesis by blast
  qed
qed

lemma findByIdAndDelete_None:
  "findById_order rs i = None \<Longrightarrow> findByIdAndDelete rs i = (None, rs)"
  by (induction rs) (auto simp: findById_order_def split: if_splits)

lemma findByIdAndDelete_Some:
  "findById_order rs i = Some r \<Longrightarrow>
   \<exists>pre post. rs = pre @ r # post \<and> list_all (\<lambda>x. order_id x \<noteq> i) pre \<and>
     findByIdAndDelete rs i = (Some r, pre @ post)"
proof (induction rs)
  case Nil
  then show ?case by (simp add: findById_order_def)
next
  case (Cons x rs)
  show ?case
  proof (cases "order_id x = i")
    case True
    with Cons.prems have "x = r" by (simp add: findById_order_def)
    with True have "x # rs = [] @ r # rs \<and> list_all (\<lambda>x. order_id x \<noteq> i) [] \<and>
       findByIdAndDelete (x # rs) i = (Some r, [] @ rs)"
      by simp
    then show ?thesis by blast
  next
    case False
    with Cons.prems have "findById_order rs i = Some r" by (simp add: findById_order_def)
    from Cons.IH[OF this] obtain pre post where
      p: "rs = pre @ r # post" "list_all (\<lambda>x. order_id x \<noteq> i) pre"
         "findByIdAndDelete rs i = (Some r, pre @ post)"
      by blast
    with False have "x # rs = (x # pre) @ r # post \<and> list_all (\<lambda>x. order_id x \<noteq> i) (x # pre) \<and>
       findByIdAndDelete (x # rs) i = (Some r, (x # pre) @ post)"
      by simp
    then show ?thesis by blast
  qed
qed

lemma findById_order_Some_id: "findById_order rs i = Some r \<Longrightarrow> order_id r = i"
  by (induction rs) (auto simp: findById_order_def split: if_splits)

lemma findById_order_None_iff: "findById_order rs i = None \<longleftrightarrow> i \<notin> set (map order_id rs)"
  by (induction rs) (auto simp: findById_order_def)

text \<open>
  Claim C6, as the code has it. Update signals \<open>InvalidRequest\<close> when the identity
  given is malformed and \<open>NotFound\<close> when no order has the identity. Otherwise it
  replaces each of the three reference fields of that order (main dish, side dishes,
  dessert) that the body supplies by the identity supplied, whatever it is (nothing is
  asked of it, so it need not resolve to a dish), and keeps the stored value of every
  field that the body omits; with all three fields supplied this is a full replace. It
  keeps the identity and the creation time of the order, leaves every other order as it
  is, and returns the updated record with its references expanded: the main dish and the
  dessert as the dish with the identity (null when there is none), the side dishes as
  the dishes with the identities (left out when there is none).
\<close>

theorem put_order_full_replace:
  "(\<not> isValid p \<longrightarrow> put_order p u d = (Inl (InvalidRequest ''Invalid order ID format''), d))
   \<and> (findById_order (Order d) i = None \<longrightarrow>
        put_order (Hex24 i) u d = (Inl (NotFound ''Order not found''), d))
   \<and> (findById_order (Order d) i = Some r \<and>
       m' = (case u_mainDish u of None \<Rightarrow> mainDish r | Some m \<Rightarrow> m) \<and>
       ss' = (case u_sideDishes u of None \<Rightarrow> sideDishes r | Some ss \<Rightarrow> ss) \<and>
       de' = (case u_dessert u of None \<Rightarrow> dessert r | Some de \<Rightarrow> de) \<longrightarrow>
        (\<exists>pre post. Order d = pre @ r # post \<and> list_all (\<lambda>x. order_id x \<noteq> i) pre \<and>
           put_order (Hex24 i) u d =
             (Inr \<lparr>p_id = order_id r,
                   p_mainDish = find (\<lambda>x. dish_id x = m') (Dish d),
                   p_sideDishes = List.map_filter (\<lambda>j. find (\<lambda>x. dish_id x = j) (Dish d)) ss',
                   p_dessert = (case de' of None \<Rightarrow> None
                                | Some j \<Rightarrow> find (\<lambda>x. dish_id x = j) (Dish d)),
                   p_createdAt = createdAt r\<rparr>,
              d\<lparr>Order := pre @ r\<lparr>mainDish := m', sideDishes := ss', dessert := de'\<rparr> # post\<rparr>)))"
proof (intro conjI impI)
  assume "\<not> isValid p"
  then show "put_order p u d = (Inl (InvalidRequest ''Invalid order ID format''), d)"
    by (simp add: put_order_def)
next
  assume "findById_order (Order d) i = None"
  then show "put_order (Hex24 i) u d = (Inl (NotFound ''Order not found''), d)"
    by (simp add: put_order_def isValid_def findByIdAndUpdate_None)
next
  let ?r' = "r\<lparr>mainDish := m', sideDishes := ss', dessert := de'\<rparr>"
  let ?p = "\<lparr>p_id = order_id r,
             p_mainDish = find (\<lambda>x. dish_id x = m') (Dish d),
             p_sideDishes = List.map_filter (\<lambda>j. find (\<lambda>x. dish_id x = j) (Dish d)) ss',
             p_dessert = (case de' of None \<Rightarrow> None
                          | Some j \<Rightarrow> find (\<lambda>x. dish_id x = j) (Dish d)),
             p_createdAt = createdAt r\<rparr>"
  assume a: "findById_order (Order d) i = Some r \<and>
       m' = (case u_mainDish u of None \<Rightarrow> mainDish r | Some m \<Rightarrow> m) \<and>
       ss' = (case u_sideDishes u of None \<Rightarrow> sideDishes r | Some ss \<Rightarrow> ss) \<and>
       de' = (case u_dessert u of None \<Rightarrow> dessert r | Some de \<Rightarrow> de)"
  then have f: "findById_order (Order d) i = Some r"
    and r': "?r' = r\<lparr>mainDish := (case u_mainDish u of None \<Rightarrow> mainDish r | Some m \<Rightarrow> m),
                    sideDishes := (case u_sideDishes u of None \<Rightarrow> sideDishes r | Some ss \<Rightarrow> ss),
                    dessert := (case u_dessert u of None \<Rightarrow> dessert r | Some de \<Rightarrow> de)\<rparr>"
    by simp_all
  from findByIdAndUpdate_Some[OF f r'] obtain pre post where
    p: "Order d = pre @ r # post" "list_all (\<lambda>x. order_id x \<noteq> i) pre"
       "findByIdAndUpdate (Order d) i u = (Some ?r', pre @ ?r' # post)"
    by blast
  have fb: "findById_dish (Dish d) = (\<lambda>j. find (\<lambda>x. dish_id x = j) (Dish d))"
    by (rule ext) (simp add: findById_dish_def)
  have pop: "populate (Dish d) ?r' = ?p"
    by (cases de') (simp_all add: populate_def fb)
  from p(3) pop have "put_order (Hex24 i) u d = (Inr ?p, d\<lparr>Order := pre @ ?r' # post\<rparr>)"
    by (simp add: put_order_def isValid_def)
  with p(1,2) show "\<exists>pre post. Order d = pre @ r # post \<and> list_all (\<lambda>x. order_id x \<noteq> i) pre \<and>
           put_order (Hex24 i) u d = (Inr ?p, d\<lparr>Order := pre @ ?r' # post\<rparr>)"
    by blast
qed

theorem put_order_full_replace_witness:
  "put_order (Malformed ''abc'') \<lparr>u_mainDish = Some 99, u_sideDishes = Some [2, 98], u_dessert = Some None\<rparr> orders_db
     = (Inl (InvalidRequest ''Invalid order ID format''), orders_db)
   \<and> put_order (Hex24 9) \<lparr>u_mainDish = Some 99, u_sideDishes = Some [2, 98], u_dessert = Some None\<rparr> orders_db = (Inl (NotFound ''Order not found''), orders_db)
   \<and> put_order (Hex24 5) \<lparr>u_mainDish = Some 99, u_sideDishes = Some [2, 98], u_dessert = Some None\<rparr> orders_db
       = (Inr \<lparr>p_id = 5, p_mainDish = None, p_sideDishes = [\<lparr>dish_id = 2, dish_type = ''side'', name = ''Dhal curry'', price = 75\<rparr>],
               p_dessert = None, p_createdAt = 2000\<rparr>,
          orders_db\<lparr>Order := [\<lparr>order_id = 4, mainDish = 0, sideDishes = [1, 2], dessert = None, createdAt = 1000\<rparr>,
                              \<lparr>order_id = 5, mainDish = 99, sideDishes = [2, 98], dessert = None, createdAt = 2000\<rparr>]\<rparr>)
   \<and> put_order (Hex24 4) \<lparr>u_mainDish = Some 0, u_sideDishes = Some [2, 1], u_dessert = Some (Some 3)\<rparr> orders_db
       = (Inr \<lparr>p_id = 4,
               p_mainDish = Some \<lparr>dish_id = 0, dish_type = ''main'', name = ''Rice'', price = 100\<rparr>,
               p_sideDishes = [\<lparr>dish_id = 2, dish_type = ''side'', name = ''Dhal curry'', price = 75\<rparr>,
                               \<lparr>dish_id = 1, dish_type = ''side'', name = ''Wadai'', price = 45\<rparr>],
               p_dessert = Some \<lparr>dish_id = 3, dish_type = ''dessert'', name = ''Jelly'', price = 20\<rparr>,
               p_createdAt = 1000\<rparr>,
          orders_db\<lparr>Order := [\<lparr>order_id = 4, mainDish = 0, sideDishes = [2, 1], dessert = Some 3, createdAt = 1000\<rparr>,
                              \<lparr>order_id = 5, mainDish = 0, sideDishes = [1], dessert = Some 3, createdAt = 2000\<rparr>]\<rparr>)"
proof -
  have h1: "\<not> isValid (Malformed ''abc'')" by (simp add: isValid_def)
  have o: "Order orders_db = [\<lparr>order_id = 4, mainDish = 0, sideDishes = [1, 2], dessert = None, createdAt = 1000\<rparr>, \<lparr>order_id = 5, mainDish = 0, sideDishes = [1], dessert = Some 3, createdAt = 2000\<rparr>]"
    by (simp add: orders_db_def)
  have ds: "Dish orders_db = [\<lparr>dish_id = 0, dish_type = ''main'', name = ''Rice'', price = 100\<rparr>, \<lparr>dish_id = 1, dish_type = ''side'', name = ''Wadai'', price = 45\<rparr>, \<lparr>dish_id = 2, dish_type = ''side'', name = ''Dhal curry'', price = 75\<rparr>, \<lparr>dish_id = 3, dish_type = ''dessert'', name = ''Jelly'', price = 20\<rparr>]"
    by (simp add: orders_db_def small_db_def)
  have h2: "findById_order (Order orders_db) 9 = None"
    by (simp add: findById_order_def o)
  have h3: "findById_order (Order orders_db) 5 = Some \<lparr>order_id = 5, mainDish = 0, sideDishes = [1], dessert = Some 3, createdAt = 2000\<rparr>"
    by (simp add: findById_order_def o)
  have h4: "findById_order (Order orders_db) 4 = Some \<lparr>order_id = 4, mainDish = 0, sideDishes = [1, 2], dessert = None, createdAt = 1000\<rparr>"
    by (simp add: findById_order_def o)
  have c1: "put_order (Malformed ''abc'') \<lparr>u_mainDish = Some 99, u_sideDishes = Some [2, 98], u_dessert = Some None\<rparr> orders_db
     = (Inl (InvalidRequest ''Invalid order ID format''), orders_db)"
    using put_order_full_replace[where p = "Malformed ''abc''" and u = "\<lparr>u_mainDish = Some 99, u_sideDishes = Some [2, 98], u_dessert = Some None\<rparr>" and d = orders_db] h1
    by blast
  have c2: "put_order (Hex24 9) \<lparr>u_mainDish = Some 99, u_sideDishes = Some [2, 98], u_dessert = Some None\<rparr> orders_db = (Inl (NotFound ''Order not found''), orders_db)"
    using put_order_full_replace[where i = 9 and u = "\<lparr>u_mainDish = Some 99, u_sideDishes = Some [2, 98], u_dessert = Some None\<rparr>" and d = orders_db] h2
    by blast
  have h5: "findById_order (Order orders_db) 5 = Some \<lparr>order_id = 5, mainDish = 0, sideDishes = [1], dessert = Some 3, createdAt = 2000\<rparr> \<and>
      99 = (case u_mainDish \<lparr>u_mainDish = Some 99, u_sideDishes = Some [2, 98], u_dessert = Some None\<rparr> of None \<Rightarrow> mainDish \<lparr>order_id = 5, mainDish = 0, sideDishes = [1], dessert = Some 3, createdAt = 2000\<rparr> | Some m \<Rightarrow> m) \<and>
      [2, 98] = (case u_sideDishes \<lparr>u_mainDish = Some 99, u_sideDishes = Some [2, 98], u_dessert = Some None\<rparr> of None \<Rightarrow> sideDishes \<lparr>order_id = 5, mainDish = 0, sideDishes = [1], dessert = Some 3, createdAt = 2000\<rparr> | Some ss \<Rightarrow> ss) \<and>
      None = (case u_dessert \<lparr>u_mainDish = Some 99, u_sideDishes = Some [2, 98], u_dessert = Some None\<rparr> of None \<Rightarrow> dessert \<lparr>order_id = 5, mainDish = 0, sideDishes = [1], dessert = Some 3, createdAt = 2000\<rparr> | Some de \<Rightarrow> de)"
    using h3 by simp
  from put_order_full_replace[where p = "Hex24 5" and i = 5 and u = "\<lparr>u_mainDish = Some 99, u_sideDishes = Some [2, 98], u_dessert = Some None\<rparr>" and d = orders_db
      and r = "\<lparr>order_id = 5, mainDish = 0, sideDishes = [1], dessert = Some 3, createdAt = 2000\<rparr>" and m' = 99 and ss' = "[2, 98]" and de' = None,
      THEN conjunct2, THEN conjunct2, rule_format, OF h5]
  obtain pre post where p: "Order orders_db = pre @ \<lparr>order_id = 5, mainDish = 0, sideDishes = [1], dessert = Some 3, createdAt = 2000\<rparr> # post"
    "put_order (Hex24 5) \<lparr>u_mainDish = Some 99, u_sideDishes = Some [2, 98], u_dessert = Some None\<rparr> orders_db =
       (Inr \<lparr>p_id = order_id \<lparr>order_id = 5, mainDish = 0, sideDishes = [1], dessert = Some 3, createdAt = 2000\<rparr>,
             p_mainDish = find (\<lambda>x. dish_id x = 99) (Dish orders_db),
             p_sideDishes = List.map_filter (\<lambda>j. find (\<lambda>x. dish_id x = j) (Dish orders_db)) [2, 98],
             p_dessert = (case None of None \<Rightarrow> None
                          | Some j \<Rightarrow> find (\<lambda>x. dish_id x = j) (Dish orders_db)),
             p_createdAt = createdAt \<lparr>order_id = 5, mainDish = 0, sideDishes = [1], dessert = Some 3, createdAt = 2000\<rparr>\<rparr>,
        orders_db\<lparr>Order := pre @ \<lparr>order_id = 5, mainDish = 0, sideDishes = [1], dessert = Some 3, createdAt = 2000\<rparr>\<lparr>mainDish := 99,
              sideDishes := [2, 98], dessert := None\<rparr> # post\<rparr>)"
    by blast
  from p(1) have "pre = [\<lparr>order_id = 4, mainDish = 0, sideDishes = [1, 2], dessert = None, createdAt = 1000\<rparr>] \<and> post = []"
    unfolding o by (auto simp: Cons_eq_append_conv append_eq_Cons_conv)
  with p(2) have c3: "put_order (Hex24 5) \<lparr>u_mainDish = Some 99, u_sideDishes = Some [2, 98], u_dessert = Some None\<rparr> orders_db
       = (Inr \<lparr>p_id = 5, p_mainDish = None, p_sideDishes = [\<lparr>dish_id = 2, dish_type = ''side'', name = ''Dhal curry'', price = 75\<rparr>],
               p_dessert = None, p_createdAt = 2000\<rparr>,
          orders_db\<lparr>Order := [\<lparr>order_id = 4, mainDish = 0, sideDishes = [1, 2], dessert = None, createdAt = 1000\<rparr>, \<lparr>order_id = 5, mainDish = 99, sideDishes = [2, 98], dessert = None, createdAt = 2000\<rparr>]\<rparr>)"
    by (simp add: ds List.map_filter_def)
  have h6: "findById_order (Order orders_db) 4 = Some \<lparr>order_id = 4, mainDish = 0, sideDishes = [1, 2], dessert = None, createdAt = 1000\<rparr> \<and>
      0 = (case u_mainDish \<lparr>u_mainDish = Some 0, u_sideDishes = Some [2, 1], u_dessert = Some (Some 3)\<rparr> of None \<Rightarrow> mainDish \<lparr>order_id = 4, mainDish = 0, sideDishes = [1, 2], dessert = None, createdAt = 1000\<rparr> | Some m \<Rightarrow> m) \<and>
      [2, 1] = (case u_sideDishes \<lparr>u_mainDish = Some 0, u_sideDishes = Some [2, 1], u_dessert = Some (Some 3)\<rparr> of None \<Rightarrow> sideDishes \<lparr>order_id = 4, mainDish = 0, sideDishes = [1, 2], dessert = None, createdAt = 1000\<rparr> | Some ss \<Rightarrow> ss) \<and>
      Some 3 = (case u_dessert \<lparr>u_mainDish = Some 0, u_sideDishes = Some [2, 1], u_dessert = Some (Some 3)\<rparr> of None \<Rightarrow> dessert \<lparr>order_id = 4, mainDish = 0, sideDishes = [1, 2], dessert = None, createdAt = 1000\<rparr> | Some de \<Rightarrow> de)"
    using h4 by simp
  from put_order_full_replace[where p = "Hex24 4" and i = 4 and u = "\<lparr>u_mainDish = Some 0, u_sideDishes = Some [2, 1], u_dessert = Some (Some 3)\<rparr>" and d = orders_db
      and r = "\<lparr>order_id = 4, mainDish = 0, sideDishes = [1, 2], dessert = None, createdAt = 1000\<rparr>" and m' = 0 and ss' = "[2, 1]" and de' = "Some 3",
      THEN conjunct2, THEN conjunct2, rule_format, OF h6]
  obtain pre' post' where q: "Order orders_db = pre' @ \<lparr>order_id = 4, mainDish = 0, sideDishes = [1, 2], dessert = None, createdAt = 1000\<rparr> # post'"
    "put_order (Hex24 4) \<lparr>u_mainDish = Some 0, u_sideDishes = Some [2, 1], u_dessert = Some (Some 3)\<rparr> orders_db =
       (Inr \<lparr>p_id = order_id \<lparr>order_id = 4, mainDish = 0, sideDishes = [1, 2], dessert = None, createdAt = 1000\<rparr>,
             p_mainDish = find (\<lambda>x. dish_id x = 0) (Dish orders_db),
             p_sideDishes = List.map_filter (\<lambda>j. find (\<lambda>x. dish_id x = j) (Dish orders_db)) [2, 1],
             p_dessert = (case Some 3 of None \<Rightarrow> None
                          | Some j \<Rightarrow> find (\<lambda>x. dish_id x = j) (Dish orders_db)),
             p_createdAt = createdAt \<lparr>order_id = 4, mainDish = 0, sideDishes = [1, 2], dessert = None, createdAt = 1000\<rparr>\<rparr>,
        orders_db\<lparr>Order := pre' @ \<lparr>order_id = 4, mainDish = 0, sideDishes = [1, 2], dessert = None, createdAt = 1000\<rparr>\<lparr>mainDish := 0,
              sideDishes := [2, 1], dessert := Some 3\<rparr> # post'\<rparr>)"
    by blast
  from q(1) have "pre' = [] \<and> post' = [\<lparr>order_id = 5, mainDish = 0, sideDishes = [1], dessert = Some 3, createdAt = 2000\<rparr>]"
    unfolding o by (auto simp: Cons_eq_append_conv append_eq_Cons_conv)
  with q(2) have c4: "put_order (Hex24 4) \<lparr>u_mainDish = Some 0, u_sideDishes = Some [2, 1], u_dessert = Some (Some 3)\<rparr> orders_db
       = (Inr \<lparr>p_id = 4,
               p_mainDish = Some \<lparr>dish_id = 0, dish_type = ''main'', name = ''Rice'', price = 100\<rparr>,
               p_sideDishes = [\<lparr>dish_id = 2, dish_type = ''side'', name = ''Dhal curry'', price = 75\<rparr>,
                               \<lparr>dish_id = 1, dish_type = ''side'', name = ''Wadai'', price = 45\<rparr>],
               p_dessert = Some \<lparr>dish_id = 3, dish_type = ''dessert'', name = ''Jelly'', price = 20\<rparr>,
               p_createdAt = 1000\<rparr>,
          orders_db\<lparr>Order := [\<lparr>order_id = 4, mainDish = 0, sideDishes = [2, 1], dessert = Some 3, createdAt = 1000\<rparr>, \<lparr>order_id = 5, mainDish = 0, sideDishes = [1], dessert = Some 3, createdAt = 2000\<rparr>]\<rparr>)"
    by (simp add: ds List.map_filter_def)
  show ?thesis using c1 c2 c3 c4 by simp
qed

text \<open>
  The claim as the specification words it promises a full replace of the three fields.
  An update of the second order whose body supplies a main dish and side dishes and
  omits the dessert leaves the stored dessert, the dish 3, in place.
\<close>

theorem put_order_partial_counterexample:
  "findById_order (Order orders_db) 5
     = Some \<lparr>order_id = 5, mainDish = 0, sideDishes = [1], dessert = Some 3, createdAt = 2000\<rparr>
   \<and> Order (snd (put_order (Hex24 5) \<lparr>u_mainDish = Some 0, u_sideDishes = Some [2], u_dessert = None\<rparr> orders_db))
       = [\<lparr>order_id = 4, mainDish = 0, sideDishes = [1, 2], dessert = None, createdAt = 1000\<rparr>,
          \<lparr>order_id = 5, mainDish = 0, sideDishes = [2], dessert = Some 3, createdAt = 2000\<rparr>]"
  by (simp add: put_order_def isValid_def orders_db_def findById_order_def Let_def)


text \<open>
  Claim C9. Deleting by an identity that no order has signals \<open>NotFound\<close> and
  changes nothing. Deleting by the identity of an order removes exactly that record:
  afterwards reading the identity signals \<open>NotFound\<close> and the order is not among
  the orders that get-all returns. No delete changes the Dish collection. (The
  identities of the orders are unique, as the database keeps them.)
\<close>

theorem delete_order_terminal:
  "(findById_order (Order d) i = None \<longrightarrow>
      delete_order (Hex24 i) d = (Inl (NotFound ''Order not found''), d))
   \<and> (distinct (map order_id (Order d)) \<and> findById_order (Order d) i = Some r \<longrightarrow>
        (\<exists>pre post. Order d = pre @ r # post \<and>
           delete_order (Hex24 i) d = (Inr ''Order deleted successfully'', d\<lparr>Order := pre @ post\<rparr>) \<and>
           get_order (Hex24 i) (d\<lparr>Order := pre @ post\<rparr>) = Inl (NotFound ''Order not found'') \<and>
           i \<notin> set (map p_id (get_orders (d\<lparr>Order := pre @ post\<rparr>)))))
   \<and> Dish (snd (delete_order p d)) = Dish d"
proof (intro conjI impI)
  assume "findById_order (Order d) i = None"
  then show "delete_order (Hex24 i) d = (Inl (NotFound ''Order not found''), d)"
    by (simp add: delete_order_def findByIdAndDelete_None)
next
  assume a: "distinct (map order_id (Order d)) \<and> findById_order (Order d) i = Some r"
  then have f: "findById_order (Order d) i = Some r" by simp
  from findByIdAndDelete_Some[OF f] obtain pre post where
    p: "Order d = pre @ r # post" "findByIdAndDelete (Order d) i = (Some r, pre @ post)"
    by blast
  from f have ri: "order_id r = i" by (rule findById_order_Some_id)
  from a p(1) ri have gone: "i \<notin> set (map order_id (pre @ post))" by auto
  have del: "delete_order (Hex24 i) d = (Inr ''Order deleted successfully'', d\<lparr>Order := pre @ post\<rparr>)"
    using p(2) by (simp add: delete_order_def)
  have get: "get_order (Hex24 i) (d\<lparr>Order := pre @ post\<rparr>) = Inl (NotFound ''Order not found'')"
    using gone findById_order_None_iff[of "pre @ post" i] by (simp add: get_order_def)
  have "map p_id (get_orders (d\<lparr>Order := pre @ post\<rparr>)) = map order_id (pre @ post)"
    by (simp add: get_orders_def populate_def o_def)
  with gone have all: "i \<notin> set (map p_id (get_orders (d\<lparr>Order := pre @ post\<rparr>)))" by simp
  from p(1) del get all
  show "\<exists>pre post. Order d = pre @ r # post \<and>
           delete_order (Hex24 i) d = (Inr ''Order deleted successfully'', d\<lparr>Order := pre @ post\<rparr>) \<and>
           get_order (Hex24 i) (d\<lparr>Order := pre @ post\<rparr>) = Inl (NotFound ''Order not found'') \<and>
           i \<notin> set (map p_id (get_orders (d\<lparr>Order := pre @ post\<rparr>)))"
    by blast
next
  show "Dish (snd (delete_order p d)) = Dish d"
    by (auto simp: delete_order_def split: id_param.splits prod.splits option.splits)
qed

theorem delete_order_terminal_witness:
  "delete_order (Hex24 9) orders_db = (Inl (NotFound ''Order not found''), orders_db)
   \<and> distinct (map order_id (Order orders_db))
   \<and> delete_order (Hex24 4) orders_db
       = (Inr ''Order deleted successfully'', orders_db\<lparr>Order := [\<lparr>order_id = 5, mainDish = 0, sideDishes = [1], dessert = Some 3, createdAt = 2000\<rparr>]\<rparr>)
   \<and> get_order (Hex24 4) (snd (delete_order (Hex24 4) orders_db)) = Inl (NotFound ''Order not found'')
   \<and> map p_id (get_orders (snd (delete_order (Hex24 4) orders_db))) = [5]
   \<and> Dish (snd (delete_order (Hex24 4) orders_db)) = Dish orders_db"
proof -
  have o: "Order orders_db = [\<lparr>order_id = 4, mainDish = 0, sideDishes = [1, 2], dessert = None, createdAt = 1000\<rparr>, \<lparr>order_id = 5, mainDish = 0, sideDishes = [1], dessert = Some 3, createdAt = 2000\<rparr>]"
    by (simp add: orders_db_def)
  have h1: "findById_order (Order orders_db) 9 = None"
    by (simp add: findById_order_def o)
  have h2: "distinct (map order_id (Order orders_db)) \<and>
      findById_order (Order orders_db) 4 = Some \<lparr>order_id = 4, mainDish = 0, sideDishes = [1, 2], dessert = None, createdAt = 1000\<rparr>"
    by (simp add: findById_order_def o)
  have c1: "delete_order (Hex24 9) orders_db = (Inl (NotFound ''Order not found''), orders_db)"
    using delete_order_terminal[where i = 9 and d = orders_db] h1 by blast
  from delete_order_terminal[where i = 4 and d = orders_db and r = "\<lparr>order_id = 4, mainDish = 0, sideDishes = [1, 2], dessert = None, createdAt = 1000\<rparr>"] h2
  obtain pre post where p: "Order orders_db = pre @ \<lparr>order_id = 4, mainDish = 0, sideDishes = [1, 2], dessert = None, createdAt = 1000\<rparr> # post"
    "delete_order (Hex24 4) orders_db = (Inr ''Order deleted successfully'', orders_db\<lparr>Order := pre @ post\<rparr>)"
    "get_order (Hex24 4) (orders_db\<lparr>Order := pre @ post\<rparr>) = Inl (NotFound ''Order not found'')"
    by blast
  from p(1) have "pre = [] \<and> post = [\<lparr>order_id = 5, mainDish = 0, sideDishes = [1], dessert = Some 3, createdAt = 2000\<rparr>]"
    unfolding o by (auto simp: Cons_eq_append_conv append_eq_Cons_conv)
  with p(2,3) have c2: "delete_order (Hex24 4) orders_db
       = (Inr ''Order deleted successfully'', orders_db\<lparr>Order := [\<lparr>order_id = 5, mainDish = 0, sideDishes = [1], dessert = Some 3, createdAt = 2000\<rparr>]\<rparr>)"
    and c3: "get_order (Hex24 4) (orders_db\<lparr>Order := [\<lparr>order_id = 5, mainDish = 0, sideDishes = [1], dessert = Some 3, createdAt = 2000\<rparr>]\<rparr>) = Inl (NotFound ''Order not found'')"
    by simp_all
  have c4: "map p_id (get_orders (orders_db\<lparr>Order := [\<lparr>order_id = 5, mainDish = 0, sideDishes = [1], dessert = Some 3, createdAt = 2000\<rparr>]\<rparr>)) = [5]"
    by (simp add: get_orders_def populate_def)
  show ?thesis using h2 c1 c2 c3 c4 by simp
qed

text \<open>The identities stay unique under every operation.\<close>

lemma unique_ids_empty: "unique_ids empty_db"
  by (simp add: unique_ids_def empty_db_def)

lemma unique_ids_post_order: "unique_ids d \<Longrightarrow> unique_ids (snd (post_order now body d))"
  by (auto simp: unique_ids_def post_order_def save_order_def Let_def list_all_iff
           split: option.splits sum.splits)

lemma findByIdAndUpdate_ids:
  "findByIdAndUpdate rs i u = (res, rs') \<Longrightarrow> map order_id rs' = map order_id rs"
  by (induction rs arbitrary: res rs') (auto simp: Let_def split: prod.splits if_splits)

lemma findByIdAndDelete_ids:
  "findByIdAndDelete rs i = (res, rs') \<Longrightarrow>
   set rs' \<subseteq> set rs \<and> (distinct (map order_id rs) \<longrightarrow> distinct (map order_id rs'))"
proof (induction rs arbitrary: res rs')
  case Nil
  then show ?case by simp
next
  case (Cons x rs)
  show ?case
  proof (cases "order_id x = i")
    case True
    with Cons.prems show ?thesis by auto
  next
    case False
    obtain res0 rs0 where r0: "findByIdAndDelete rs i = (res0, rs0)"
      by (cases "findByIdAndDelete rs i") auto
    from Cons.IH[OF r0] have ih: "set rs0 \<subseteq> set rs"
      "distinct (map order_id rs) \<longrightarrow> distinct (map order_id rs0)" by simp_all
    from Cons.prems False r0 have "rs' = x # rs0" by simp
    with ih show ?thesis by auto
  qed
qed

lemma unique_ids_put_order: "unique_ids d \<Longrightarrow> unique_ids (snd (put_order p u d))"
proof (cases p)
  case (Malformed x)
  assume "unique_ids d"
  with Malformed show ?thesis by (simp add: put_order_def isValid_def)
next
  case (Hex24 i)
  assume u: "unique_ids d"
  obtain res rs' where f: "findByIdAndUpdate (Order d) i u = (res, rs')"
    by (cases "findByIdAndUpdate (Order d) i u") auto
  from findByIdAndUpdate_ids[OF f] have ids: "map order_id rs' = map order_id (Order d)" .
  show ?thesis
  proof (cases res)
    case None
    with Hex24 f u show ?thesis by (simp add: put_order_def isValid_def)
  next
    case (Some r')
    with Hex24 f have "snd (put_order p u d) = d\<lparr>Order := rs'\<rparr>"
      by (simp add: put_order_def isValid_def)
    moreover have "list_all (\<lambda>r. order_id r < nextId d) rs' = list_all (\<lambda>x. x < nextId d) (map order_id rs')"
      by (simp add: list_all_iff)
    moreover have "list_all (\<lambda>r. order_id r < nextId d) (Order d) = list_all (\<lambda>x. x < nextId d) (map order_id (Order d))"
      by (simp add: list_all_iff)
    ultimately show ?thesis using u ids by (simp add: unique_ids_def)
  qed
qed

lemma unique_ids_delete_order: "unique_ids d \<Longrightarrow> unique_ids (snd (delete_order p d))"
proof (cases p)
  case (Malformed x)
  assume "unique_ids d"
  with Malformed show ?thesis by (simp add: delete_order_def)
next
  case (Hex24 i)
  assume u: "unique_ids d"
  obtain res rs' where f: "findByIdAndDelete (Order d) i = (res, rs')"
    by (cases "findByIdAndDelete (Order d) i") auto
  from findByIdAndDelete_ids[OF f] have ids: "set rs' \<subseteq> set (Order d)"
    "distinct (map order_id (Order d)) \<longrightarrow> distinct (map order_id rs')" by simp_all
  show ?thesis
  proof (cases res)
    case None
    with Hex24 f u show ?thesis by (simp add: delete_order_def)
  next
    case (Some r)
    with Hex24 f have "snd (delete_order p d) = d\<lparr>Order := rs'\<rparr>"
      by (simp add: delete_order_def)
    with u ids show ?thesis by (auto simp: unique_ids_def list_all_iff)
  qed
qed

lemma unique_ids_save_dish: "unique_ids d \<Longrightarrow> unique_ids (save_dish e d)"
  by (auto simp: unique_ids_def save_dish_def list_all_iff less_Suc_eq)

lemma unique_ids_seedMenu: "unique_ids d \<Longrightarrow> unique_ids (snd (seedMenu es d))"
  by (induction es arbitrary: d) (auto simp: unique_ids_save_dish split: option.splits)

section \<open>Properties of the daily-sales report\<close>

text \<open>
  In a zone with a constant offset the window of the report, from the local midnight
  before now, inclusive, to 24 hours later, exclusive, holds exactly the times of the
  local calendar day of now.
\<close>

lemma div_eq_iff_between:
  fixes D :: int
  assumes "0 < D"
  shows "x div D = q \<longleftrightarrow> D * q \<le> x \<and> x < D * q + D"
proof
  assume "x div D = q"
  moreover have "D * (x div D) + x mod D = x" by simp
  moreover have "0 \<le> x mod D" "x mod D < D" using assms by simp_all
  ultimately show "D * q \<le> x \<and> x < D * q + D" by auto
next
  assume a: "D * q \<le> x \<and> x < D * q + D"
  have "x = D * q + (x - D * q)" by simp
  moreover have "0 \<le> x - D * q" "x - D * q < D" using a by simp_all
  ultimately show "x div D = q" by (rule int_div_pos_eq)
qed

lemma day_window_general:
  fixes D :: int
  assumes "0 < D"
  shows "(now - (now + tz) mod D \<le> t \<and> t < now - (now + tz) mod D + D)
         \<longleftrightarrow> (t + tz) div D = (now + tz) div D"
proof -
  have "now + tz - (now + tz) mod D = D * ((now + tz) div D)"
    by (simp add: minus_mod_eq_mult_div)
  then have s: "now - (now + tz) mod D = D * ((now + tz) div D) - tz" by simp
  show ?thesis
    unfolding s div_eq_iff_between[OF assms] by auto
qed

lemma fixed_zone_day:
  "in_day (fixed_zone tz) now t \<longleftrightarrow> local_day tz t = local_day tz now"
proof -
  have "(0::int) < msPerDay" by (simp add: msPerDay_def)
  from day_window_general[OF this] show ?thesis
    by (simp add: in_day_def fixed_zone_def local_day_def)
qed

lemma fixed_zone_midnight: "(setHours0 (fixed_zone tz) now + tz) mod msPerDay = 0"
proof -
  have "setHours0 (fixed_zone tz) now + tz = now + tz - (now + tz) mod msPerDay"
    by (simp add: fixed_zone_def)
  also have "\<dots> = msPerDay * ((now + tz) div msPerDay)"
    by (simp add: minus_mod_eq_mult_div)
  finally show ?thesis by simp
qed

text \<open>The reduction adds the price of every order whose main dish resolves.\<close>

lemma foldl_price: "foldl (\<lambda>t dish. t + price dish) acc xs = acc + sum_list (map price xs)"
  by (induction xs arbitrary: acc) auto

lemma sum_price_map_filter:
  "sum_list (map price (List.map_filter f xs)) =
     (\<Sum>i\<leftarrow>xs. case f i of None \<Rightarrow> 0 | Some s \<Rightarrow> price s)"
  by (induction xs) (auto simp: List.map_filter_def split: option.splits)

lemma add_order_main:
  "findById_dish ds (mainDish r) \<noteq> None \<Longrightarrow>
   add_order acc (populate ds r) = Inr (acc + order_price ds r)"
  by (auto simp: add_order_def populate_def order_price_def Let_def
        foldl_price sum_price_map_filter split: option.splits)

lemma reduce_sales_main:
  "list_all (\<lambda>r. findById_dish ds (mainDish r) \<noteq> None) rs \<Longrightarrow>
   reduce_sales (map (populate ds) rs) acc = Inr (acc + (\<Sum>r\<leftarrow>rs. order_price ds r))"
  by (induction rs arbitrary: acc) (auto simp: add_order_main)

lemma add_order_Inl: "add_order acc r = Inl e \<Longrightarrow> e = InternalError"
  by (auto simp: add_order_def Let_def split: option.splits)

lemma reduce_sales_dangling_main:
  "\<not> list_all (\<lambda>r. findById_dish ds (mainDish r) \<noteq> None) rs \<Longrightarrow>
   reduce_sales (map (populate ds) rs) acc = Inl InternalError"
proof (induction rs arbitrary: acc)
  case Nil
  then show ?case by simp
next
  case (Cons r rs)
  show ?case
  proof (cases "add_order acc (populate ds r)")
    case (Inl e)
    then show ?thesis using add_order_Inl[OF Inl] by simp
  next
    case (Inr acc')
    then have "findById_dish ds (mainDish r) \<noteq> None"
      by (auto simp: add_order_def populate_def split: option.splits)
    with Cons.prems have "\<not> list_all (\<lambda>r. findById_dish ds (mainDish r) \<noteq> None) rs" by simp
    from Cons.IH[OF this] Inr show ?thesis by simp
  qed
qed

lemma daily_sales_filter:
  "daily_sales z now d =
     reduce_sales (map (populate (Dish d))
        (filter (\<lambda>r. in_day z now (createdAt r)) (Order d))) 0"
  by (simp add: daily_sales_def Let_def in_day_def)

lemma order_price_resolved:
  "refs_resolve ds r \<Longrightarrow>
   order_price ds r =
     price (the (findById_dish ds (mainDish r)))
     + (\<Sum>i\<leftarrow>sideDishes r. price (the (findById_dish ds i)))
     + (case dessert r of None \<Rightarrow> 0 | Some i \<Rightarrow> price (the (findById_dish ds i)))"
proof -
  assume a: "refs_resolve ds r"
  have "list_all (\<lambda>i. findById_dish ds i \<noteq> None) xs \<Longrightarrow>
        (\<Sum>i\<leftarrow>xs. case findById_dish ds i of None \<Rightarrow> 0 | Some s \<Rightarrow> price s)
          = (\<Sum>i\<leftarrow>xs. price (the (findById_dish ds i)))" for xs
    by (induction xs) auto
  with a show ?thesis
    by (auto simp: refs_resolve_def order_price_def split: option.splits)
qed

text \<open>
  Claim C4, as the code has it. The report totals exactly the orders created in the
  current local calendar day as the Date arithmetic of the host delimits it: from the
  local midnight before now, which the day includes, to the next local midnight, which
  it excludes. Each of these orders contributes the price of its main dish, plus the
  price of every side dish that is in the catalog, plus the price of its dessert if it
  has one and it is in the catalog; for an order whose references all resolve this is
  the price of the main dish plus the price of every side dish plus the price of the
  dessert if there is one. When the main dish of an order of the day is not in the
  catalog the report signals an internal error and gives no total. When no order was
  created in the day the total is 0.
\<close>

theorem daily_sales_total:
  "(list_all (\<lambda>r. findById_dish (Dish d) (mainDish r) \<noteq> None)
       (filter (\<lambda>r. in_day z now (createdAt r)) (Order d)) \<longrightarrow>
     daily_sales z now d =
       Inr (\<Sum>r\<leftarrow>filter (\<lambda>r. in_day z now (createdAt r)) (Order d). order_price (Dish d) r))
   \<and> (\<not> list_all (\<lambda>r. findById_dish (Dish d) (mainDish r) \<noteq> None)
         (filter (\<lambda>r. in_day z now (createdAt r)) (Order d)) \<longrightarrow>
       daily_sales z now d = Inl InternalError)
   \<and> (filter (\<lambda>r. in_day z now (createdAt r)) (Order d) = [] \<longrightarrow>
       daily_sales z now d = Inr 0)
   \<and> (refs_resolve (Dish d) r \<longrightarrow>
       order_price (Dish d) r =
         price (the (findById_dish (Dish d) (mainDish r)))
         + (\<Sum>i\<leftarrow>sideDishes r. price (the (findById_dish (Dish d) i)))
         + (case dessert r of None \<Rightarrow> 0 | Some i \<Rightarrow> price (the (findById_dish (Dish d) i))))"
proof (intro conjI impI)
  assume "list_all (\<lambda>r. findById_dish (Dish d) (mainDish r) \<noteq> None)
       (filter (\<lambda>r. in_day z now (createdAt r)) (Order d))"
  then show "daily_sales z now d =
       Inr (\<Sum>r\<leftarrow>filter (\<lambda>r. in_day z now (createdAt r)) (Order d). order_price (Dish d) r)"
    by (simp add: daily_sales_filter reduce_sales_main)
next
  assume "\<not> list_all (\<lambda>r. findById_dish (Dish d) (mainDish r) \<noteq> None)
         (filter (\<lambda>r. in_day z now (createdAt r)) (Order d))"
  then show "daily_sales z now d = Inl InternalError"
    unfolding daily_sales_filter by (rule reduce_sales_dangling_main)
next
  assume "filter (\<lambda>r. in_day z now (createdAt r)) (Order d) = []"
  then show "daily_sales z now d = Inr 0"
    by (simp add: daily_sales_filter)
next
  assume "refs_resolve (Dish d) r"
  then show "order_price (Dish d) r =
         price (the (findById_dish (Dish d) (mainDish r)))
         + (\<Sum>i\<leftarrow>sideDishes r. price (the (findById_dish (Dish d) i)))
         + (case dessert r of None \<Rightarrow> 0 | Some i \<Rightarrow> price (the (findById_dish (Dish d) i)))"
    by (rule order_price_resolved)
qed

theorem daily_sales_total_witness:
  "setHours0 eastern_2024 1710082800000 = 1710046800000
   \<and> setDatePlus1 eastern_2024 1710046800000 = 1710129600000
   \<and> daily_sales eastern_2024 1710082800000 spring_db = Inr 385
   \<and> daily_sales (fixed_zone 19800000) 0 boundary_db = Inr 385
   \<and> daily_sales (fixed_zone 0) 5000 dangling_side_db = Inr 340
   \<and> daily_sales (fixed_zone 0) 5000 dangling_main_db = Inl InternalError
   \<and> daily_sales (fixed_zone 0) 5000 small_db = Inr 0
   \<and> refs_resolve (Dish orders_db) \<lparr>order_id = 5, mainDish = 0, sideDishes = [1], dessert = Some 3, createdAt = 2000\<rparr>
   \<and> order_price (Dish orders_db) \<lparr>order_id = 5, mainDish = 0, sideDishes = [1], dessert = Some 3, createdAt = 2000\<rparr> = 165"
proof -
  have z: "setHours0 eastern_2024 1710082800000 = 1710046800000"
    "setDatePlus1 eastern_2024 1710046800000 = 1710129600000"
    by (simp_all add: eastern_2024_def dst_zone_def of_local_def zone_offset_def msPerDay_def)
  have c1: "daily_sales eastern_2024 1710082800000 spring_db = Inr 385"
    using daily_sales_total[where z = eastern_2024 and now = 1710082800000 and d = spring_db,
        THEN conjunct1]
    by (simp add: in_day_def fixed_zone_def eastern_2024_def dst_zone_def of_local_def zone_offset_def msPerDay_def
        boundary_db_def spring_db_def dangling_side_db_def dangling_main_db_def orders_db_def small_db_def
        findById_dish_def order_price_def)
  have c2: "daily_sales (fixed_zone 19800000) 0 boundary_db = Inr 385"
    using daily_sales_total[where z = "fixed_zone 19800000" and now = 0 and d = boundary_db,
        THEN conjunct1]
    by (simp add: in_day_def fixed_zone_def eastern_2024_def dst_zone_def of_local_def zone_offset_def msPerDay_def
        boundary_db_def spring_db_def dangling_side_db_def dangling_main_db_def orders_db_def small_db_def
        findById_dish_def order_price_def)
  have c3: "daily_sales (fixed_zone 0) 5000 dangling_side_db = Inr 340"
    using daily_sales_total[where z = "fixed_zone 0" and now = 5000 and d = dangling_side_db,
        THEN conjunct1]
    by (simp add: in_day_def fixed_zone_def eastern_2024_def dst_zone_def of_local_def zone_offset_def msPerDay_def
        boundary_db_def spring_db_def dangling_side_db_def dangling_main_db_def orders_db_def small_db_def
        findById_dish_def order_price_def)
  have c4: "daily_sales (fixed_zone 0) 5000 dangling_main_db = Inl InternalError"
    using daily_sales_total[where z = "fixed_zone 0" and now = 5000 and d = dangling_main_db,
        THEN conjunct2, THEN conjunct1]
    by (simp add: in_day_def fixed_zone_def eastern_2024_def dst_zone_def of_local_def zone_offset_def msPerDay_def
        boundary_db_def spring_db_def dangling_side_db_def dangling_main_db_def orders_db_def small_db_def
        findById_dish_def order_price_def)
  have c5: "daily_sales (fixed_zone 0) 5000 small_db = Inr 0"
    using daily_sales_total[where z = "fixed_zone 0" and now = 5000 and d = small_db,
        THEN conjunct2, THEN conjunct2, THEN conjunct1]
    by (simp add: small_db_def)
  have h: "refs_resolve (Dish orders_db) \<lparr>order_id = 5, mainDish = 0, sideDishes = [1], dessert = Some 3, createdAt = 2000\<rparr>"
    by (simp add: refs_resolve_def orders_db_def small_db_def findById_dish_def)
  from daily_sales_total[where d = orders_db and r = "\<lparr>order_id = 5, mainDish = 0, sideDishes = [1], dessert = Some 3, createdAt = 2000\<rparr>",
      THEN conjunct2, THEN conjunct2, THEN conjunct2] h
  have c6: "order_price (Dish orders_db) \<lparr>order_id = 5, mainDish = 0, sideDishes = [1], dessert = Some 3, createdAt = 2000\<rparr> = 165"
    by (simp add: orders_db_def small_db_def findById_dish_def)
  show ?thesis using z c1 c2 c3 c4 c5 h c6 by simp
qed

text \<open>
  The claim as the specification words it promises a total to which every order of the
  day contributes the price of its main dish. The second of the two orders, created in
  the day of the report, has the main dish 99, which is not in the catalog (one update
  of the order leaves it so), and the report signals an internal error.
\<close>

theorem daily_sales_dangling_counterexample:
  "in_day (fixed_zone 0) 5000 2000
   \<and> findById_dish (Dish dangling_main_db) 99 = None
   \<and> daily_sales (fixed_zone 0) 5000 dangling_main_db = Inl InternalError"
  by code_simp

text \<open>
  The databases of the examples with references that do not resolve arise from the two
  orders by one update each.
\<close>

lemma dangling_main_db_reached:
  "snd (put_order (Hex24 5) \<lparr>u_mainDish = Some 99, u_sideDishes = None, u_dessert = None\<rparr> orders_db)
     = dangling_main_db"
  by code_simp

lemma mixed_db_reached:
  "snd (put_order (Hex24 5) \<lparr>u_mainDish = None, u_sideDishes = Some [1, 98], u_dessert = None\<rparr> orders_db)
     = mixed_db"
  by code_simp

lemma dangling_side_db_reached:
  "snd (put_order (Hex24 5) \<lparr>u_mainDish = None, u_sideDishes = Some [98, 98], u_dessert = None\<rparr> orders_db)
     = dangling_side_db"
  by code_simp


section \<open>Properties of seeding\<close>

lemma findOne_name_None_iff: "findOne_name ds n = None \<longleftrightarrow> n \<notin> set (map name ds)"
  by (induction ds) (auto simp: findOne_name_def)

lemma save_dish_Dish:
  "Dish (save_dish e d) = Dish d @ [\<lparr>dish_id = nextId d, dish_type = e_type e, name = e_name e, price = e_price e\<rparr>]"
  by (simp add: save_dish_def)

lemma seedMenu_keeps_names:
  "n \<in> set (map name (Dish d)) \<Longrightarrow> n \<in> set (map name (Dish (snd (seedMenu es d))))"
  by (induction es arbitrary: d) (auto simp: save_dish_Dish split: option.splits)

lemma seedMenu_twice: "seedMenu es (snd (seedMenu es d)) = seedMenu es d"
proof (induction es arbitrary: d)
  case Nil
  show ?case by simp
next
  case (Cons e es)
  show ?case
  proof (cases "findOne_name (Dish d) (e_name e)")
    case (Some x)
    then have first: "seedMenu (e # es) d = seedMenu es d" by simp
    from Some have "e_name e \<in> set (map name (Dish d))"
      using findOne_name_None_iff[of "Dish d" "e_name e"] by simp
    then have "e_name e \<in> set (map name (Dish (snd (seedMenu es d))))"
      by (rule seedMenu_keeps_names)
    then obtain y where "findOne_name (Dish (snd (seedMenu es d))) (e_name e) = Some y"
      using findOne_name_None_iff[of "Dish (snd (seedMenu es d))" "e_name e"] by auto
    then have "seedMenu (e # es) (snd (seedMenu es d)) = seedMenu es (snd (seedMenu es d))"
      by simp
    with first Cons.IH[of d] show ?thesis by simp
  next
    case None
    show ?thesis
    proof (cases "validate_dish e")
      case True
      let ?d1 = "save_dish e d"
      from None True have first: "seedMenu (e # es) d = seedMenu es ?d1" by simp
      have "e_name e \<in> set (map name (Dish ?d1))" by (simp add: save_dish_Dish)
      then have "e_name e \<in> set (map name (Dish (snd (seedMenu es ?d1))))"
        by (rule seedMenu_keeps_names)
      then obtain y where "findOne_name (Dish (snd (seedMenu es ?d1))) (e_name e) = Some y"
        using findOne_name_None_iff[of "Dish (snd (seedMenu es ?d1))" "e_name e"] by auto
      then have "seedMenu (e # es) (snd (seedMenu es ?d1)) = seedMenu es (snd (seedMenu es ?d1))"
        by simp
      with first Cons.IH[of ?d1] show ?thesis by simp
    next
      case False
      with None show ?thesis by simp
    qed
  qed
qed

lemma seedMenu_added:
  "\<exists>added. Dish (snd (seedMenu es d)) = Dish d @ added
      \<and> distinct (map name added)
      \<and> set (map name added) \<inter> set (map name (Dish d)) = {}"
proof (induction es arbitrary: d)
  case Nil
  show ?case by simp
next
  case (Cons e es)
  show ?case
  proof (cases "findOne_name (Dish d) (e_name e)")
    case (Some x)
    with Cons.IH[of d] show ?thesis by auto
  next
    case None
    show ?thesis
    proof (cases "validate_dish e")
      case True
      let ?new = "\<lparr>dish_id = nextId d, dish_type = e_type e, name = e_name e, price = e_price e\<rparr>"
      from Cons.IH[of "save_dish e d"] obtain added where
        a: "Dish (snd (seedMenu es (save_dish e d))) = Dish (save_dish e d) @ added"
           "distinct (map name added)"
           "set (map name added) \<inter> set (map name (Dish (save_dish e d))) = {}"
        by blast
      from None have fresh: "e_name e \<notin> set (map name (Dish d))"
        by (simp add: findOne_name_None_iff)
      have "Dish (snd (seedMenu (e # es) d)) = Dish d @ (?new # added)"
        using None True a(1) by (simp add: save_dish_Dish)
      moreover have "distinct (map name (?new # added))"
        using a(2,3) by (auto simp: save_dish_Dish)
      moreover have "set (map name (?new # added)) \<inter> set (map name (Dish d)) = {}"
        using a(3) fresh by (auto simp: save_dish_Dish)
      ultimately show ?thesis by blast
    next
      case False
      with None show ?thesis by simp
    qed
  qed
qed

text \<open>
  Claim C7. Seeding is an idempotent insertion by name: seeding a list a second time
  changes nothing (neither the Dish collection nor anything else of the database, and
  the outcome logged is the same). The dishes added by a run have names that are
  pairwise different and different from the names already there, so a collection
  without duplicate names has none after seeding.
\<close>

theorem seedMenu_idempotent:
  "seedMenu es (snd (seedMenu es d)) = seedMenu es d
   \<and> Dish (snd (seedMenu es (snd (seedMenu es d)))) = Dish (snd (seedMenu es d))
   \<and> (\<exists>added. Dish (snd (seedMenu es d)) = Dish d @ added
         \<and> distinct (map name added)
         \<and> set (map name added) \<inter> set (map name (Dish d)) = {})
   \<and> (distinct (map name (Dish d)) \<longrightarrow> distinct (map name (Dish (snd (seedMenu es d)))))"
proof (intro conjI impI)
  show "seedMenu es (snd (seedMenu es d)) = seedMenu es d" by (rule seedMenu_twice)
  then show "Dish (snd (seedMenu es (snd (seedMenu es d)))) = Dish (snd (seedMenu es d))"
    by simp
  from seedMenu_added[of es d] show "\<exists>added. Dish (snd (seedMenu es d)) = Dish d @ added
         \<and> distinct (map name added)
         \<and> set (map name added) \<inter> set (map name (Dish d)) = {}" by blast
next
  assume dd: "distinct (map name (Dish d))"
  from seedMenu_added[of es d] obtain added where
    a: "Dish (snd (seedMenu es d)) = Dish d @ added" "distinct (map name added)"
       "set (map name added) \<inter> set (map name (Dish d)) = {}"
    by blast
  from dd a(2,3) have "distinct (map name (Dish d @ added))"
    by (simp add: Int_commute)
  with a(1) show "distinct (map name (Dish (snd (seedMenu es d))))" by simp
qed

theorem seedMenu_idempotent_witness:
  "distinct (map name (Dish small_db))
   \<and> distinct (map name (Dish (snd (initializeMenu small_db))))
   \<and> length (Dish (snd (initializeMenu small_db))) = 9
   \<and> initializeMenu (snd (initializeMenu small_db)) = initializeMenu small_db"
proof -
  have h: "distinct (map name (Dish small_db))" by (simp add: small_db_def)
  from seedMenu_idempotent[of defaultDishes small_db] h
  have c: "distinct (map name (Dish (snd (seedMenu defaultDishes small_db))))"
    and i: "seedMenu defaultDishes (snd (seedMenu defaultDishes small_db)) = seedMenu defaultDishes small_db"
    by blast+
  have l: "length (Dish (snd (initializeMenu small_db))) = 9" by code_simp
  show ?thesis using h c i l by (simp add: initializeMenu_def)
qed

lemma seedMenu_append:
  "seedMenu (pre @ rest) d =
     (if fst (seedMenu pre d) = MenuInitialized then seedMenu rest (snd (seedMenu pre d))
      else seedMenu pre d)"
  by (induction pre arbitrary: d) (auto split: option.splits)

text \<open>
  Claim C8, as the code has it. Seeding stops at the first entry whose insertion fails:
  the entries before it stay seeded, the failing entry and all entries after it are not
  processed, and the failure is logged, not propagated.
\<close>

theorem seedMenu_stops_at_failure:
  "fst (seedMenu pre d) = MenuInitialized \<and>
   findOne_name (Dish (snd (seedMenu pre d))) (e_name e) = None \<and> \<not> validate_dish e \<longrightarrow>
   seedMenu (pre @ e # post) d = (ErrorInitializingMenu, snd (seedMenu pre d))"
  by (simp add: seedMenu_append)

theorem seedMenu_stops_at_failure_witness:
  "fst (seedMenu [\<lparr>e_type = ''main'', e_name = ''Rice'', e_price = 100\<rparr>] empty_db) = MenuInitialized
   \<and> \<not> validate_dish \<lparr>e_type = ''starter'', e_name = ''Soup'', e_price = 10\<rparr>
   \<and> validate_dish \<lparr>e_type = ''main'', e_name = ''Rotty'', e_price = 20\<rparr>
   \<and> seedMenu [\<lparr>e_type = ''main'', e_name = ''Rice'', e_price = 100\<rparr>, \<lparr>e_type = ''starter'', e_name = ''Soup'', e_price = 10\<rparr>, \<lparr>e_type = ''main'', e_name = ''Rotty'', e_price = 20\<rparr>] empty_db
       = (ErrorInitializingMenu,
          \<lparr>Dish = [\<lparr>dish_id = 0, dish_type = ''main'', name = ''Rice'', price = 100\<rparr>], Order = [], nextId = 1\<rparr>)"
  using seedMenu_stops_at_failure[where pre = "[\<lparr>e_type = ''main'', e_name = ''Rice'', e_price = 100\<rparr>]" and e = "\<lparr>e_type = ''starter'', e_name = ''Soup'', e_price = 10\<rparr>"
      and post = "[\<lparr>e_type = ''main'', e_name = ''Rotty'', e_price = 20\<rparr>]" and d = empty_db]
  by (simp add: empty_db_def findOne_name_def validate_dish_def save_dish_def)

text \<open>
  The claim as the specification words it promises that the entries after a failing one
  are still seeded. Seeding the invalid entry Soup (its type is not of the enumeration)
  followed by the valid entry Rice into the empty database leaves the database empty.
\<close>

theorem seedMenu_failure_counterexample:
  "validate_dish \<lparr>e_type = ''main'', e_name = ''Rice'', e_price = 100\<rparr>
   \<and> findOne_name (Dish empty_db) ''Rice'' = None
   \<and> seedMenu [\<lparr>e_type = ''starter'', e_name = ''Soup'', e_price = 10\<rparr>, \<lparr>e_type = ''main'', e_name = ''Rice'', e_price = 100\<rparr>] empty_db = (ErrorInitializingMenu, empty_db)"
  by (simp add: empty_db_def findOne_name_def validate_dish_def)

end
